theory Spec2Isabelle
  imports Complex_Main
begin

section \<open>Soil column of one grid cell\<close>

text \<open>
  The two routines of \<^verbatim>\<open>UnsaturatedFlow.c\<close> work on one grid cell. Their C
  \<^verbatim>\<open>float\<close> values are read here as exact real numbers and the \<^verbatim>\<open>float *\<close> arrays as
  lists indexed from 0. The per-layer arrays have one entry for
  each of the \<open>NSoilLayers\<close> explicit layers; \<open>Moist\<close> and \<open>Adjust\<close> have one more, at index
  \<open>NSoilLayers\<close>, for the deep layer. The C code checks no index; a statement below that
  depends on what an entry holds says how long the arrays are (\<open>sized\<close>).

  The arrays that the routines only read are the fields of \<open>soil\<close>; what they update in
  place (through \<^verbatim>\<open>float *Perc\<close>, \<^verbatim>\<open>*TableDepth\<close>, \<^verbatim>\<open>*Runoff\<close>, \<^verbatim>\<open>*Moist\<close>) is \<open>cell\<close>,
  passed in and returned.
\<close>

record soil =
  TotalDepth :: real
  RootDepth :: "real list"
  Ks :: "real list"
  PoreDist :: "real list"
  Porosity :: "real list"
  FCap :: "real list"
  PercArea :: "real list"
  Adjust :: "real list"

record cell =
  Perc :: "real list"
  TableDepth :: real
  Runoff :: real
  Moist :: "real list"

text \<open>
  \<^verbatim>\<open>WaterTableDepth\<close> is declared in \<^verbatim>\<open>functions.h\<close> and defined elsewhere in DHSVM. It is
  a parameter of the model: given \<open>NSoilLayers\<close>, \<open>TotalDepth\<close>, \<open>RootDepth\<close>, \<open>Porosity\<close>,
  \<open>FCap\<close>, \<open>Adjust\<close> and \<open>Moist\<close> it returns the table depth and the moisture array it
  leaves behind.
\<close>

type_synonym table_depth_fn =
  "nat \<Rightarrow> real \<Rightarrow> real list \<Rightarrow> real list \<Rightarrow> real list \<Rightarrow> real list \<Rightarrow> real list
     \<Rightarrow> real \<times> real list"

text \<open>
  \<^verbatim>\<open>DeepLayerDepth = TotalDepth; for (i = 0; i < NSoilLayers; i++) DeepLayerDepth -= RootDepth[i];\<close>
\<close>

definition DeepLayerDepth :: "nat \<Rightarrow> soil \<Rightarrow> real" where
  "DeepLayerDepth N s = fold (\<lambda>i d. d - RootDepth s ! i) [0..<N] (TotalDepth s)"

section \<open>UnsaturatedFlow\<close>

text \<open>Lines 136-145: infiltration through the roadbed or channel.\<close>

definition roadbed_infiltration :: "real \<Rightarrow> nat \<Rightarrow> soil \<Rightarrow> int \<Rightarrow> real \<Rightarrow> cell \<Rightarrow> cell" where
  "roadbed_infiltration RoadbedInfiltration N s CutBankZone BankHeight c =
     (if TableDepth c \<le> BankHeight then c\<lparr>Runoff := Runoff c + RoadbedInfiltration\<rparr>
      else if CutBankZone = int N then
        c\<lparr>Moist := (Moist c)[N := Moist c ! N +
             RoadbedInfiltration / (DeepLayerDepth N s * Adjust s ! N)]\<rparr>
      else if CutBankZone \<ge> 0 then
        c\<lparr>Moist := (Moist c)[nat CutBankZone := Moist c ! nat CutBankZone +
             RoadbedInfiltration / (RootDepth s ! nat CutBankZone * Adjust s ! nat CutBankZone)]\<rparr>
      else c)"

text \<open>
  Lines 146-153: infiltration through the remaining surface. \<open>Infiltration\<close> is a by-value
  parameter that the C code assigns to; the second component is its value afterwards.
  \<open>DYNAMIC\<close> is a constant of \<^verbatim>\<open>settings.h\<close>, taken as a parameter.
\<close>

definition surface_infiltration :: "int \<Rightarrow> real \<Rightarrow> soil \<Rightarrow> int \<Rightarrow> cell \<Rightarrow> cell \<times> real" where
  "surface_infiltration DYNAMIC Infiltration s InfiltOption c =
     (if TableDepth c \<le> 0 then
        (c\<lparr>Runoff := Runoff c + Infiltration\<rparr>,
         if InfiltOption = DYNAMIC then 0 else Infiltration)
      else
        (c\<lparr>Moist := (Moist c)[0 := Moist c ! 0 + Infiltration / (RootDepth s ! 0 * Adjust s ! 0)]\<rparr>,
         Infiltration))"

text \<open>
  \<^verbatim>\<open>pow\<close> of \<^verbatim>\<open>math.h\<close> on the reals: the power of a positive base, and for a negative
  base and an integer exponent the power of its absolute value with the sign that the
  exponent's parity gives. Where C returns no real number or one that depends on the sign
  of a zero (a base of 0, a negative base with a fractional exponent) the value here is
  0, which is what C returns for a base of 0 and a positive exponent; the statements below
  that depend on the value of \<open>pow\<close> keep the base positive.
\<close>

definition pow :: "real \<Rightarrow> real \<Rightarrow> real" where
  "pow x y =
     (if 0 < x then x powr y
      else if x < 0 \<and> y = of_int \<lfloor>y\<rfloor> then (if even \<lfloor>y\<rfloor> then 1 else - 1) * (- x) powr y
      else 0)"

text \<open>
  Lines 159-168: the drainage of layer \<open>i\<close> over the time step, by the Brooks-Corey
  relation, for a layer above field capacity.
\<close>

definition Drainage :: "int \<Rightarrow> soil \<Rightarrow> nat \<Rightarrow> cell \<Rightarrow> real" where
  "Drainage Dt s i c =
     (let Exponent = 2 / PoreDist s ! i + 3 in
      (if Moist c ! i > Porosity s ! i then Ks s ! i
       else Ks s ! i * pow (Moist c ! i / Porosity s ! i) Exponent) * real_of_int Dt)"

text \<open>Lines 171-173.\<close>

definition MaxSoilWater :: "soil \<Rightarrow> nat \<Rightarrow> real" where
  "MaxSoilWater s i = RootDepth s ! i * Porosity s ! i * Adjust s ! i"

definition SoilWater :: "soil \<Rightarrow> nat \<Rightarrow> cell \<Rightarrow> real" where
  "SoilWater s i c = RootDepth s ! i * Moist c ! i * Adjust s ! i"

definition FieldCapacity :: "soil \<Rightarrow> nat \<Rightarrow> real" where
  "FieldCapacity s i = RootDepth s ! i * FCap s ! i * Adjust s ! i"

text \<open>
  The successive values that the branch \<^verbatim>\<open>Moist[i] > FCap[i]\<close> assigns to \<^verbatim>\<open>Perc[i]\<close>:
  line 169 (average with the stored flux), lines 176-177 (no drainage below field
  capacity), lines 182-184 (moisture above the porosity is added to the percolation).
\<close>

definition Perc_averaged :: "int \<Rightarrow> soil \<Rightarrow> nat \<Rightarrow> cell \<Rightarrow> real" where
  "Perc_averaged Dt s i c = 0.5 * (Perc c ! i + Drainage Dt s i c) * PercArea s ! i"

definition Perc_clamped :: "int \<Rightarrow> soil \<Rightarrow> nat \<Rightarrow> cell \<Rightarrow> real" where
  "Perc_clamped Dt s i c =
     (if SoilWater s i c - Perc_averaged Dt s i c < FieldCapacity s i
      then SoilWater s i c - FieldCapacity s i
      else Perc_averaged Dt s i c)"

definition Perc_pushed :: "int \<Rightarrow> soil \<Rightarrow> nat \<Rightarrow> cell \<Rightarrow> real" where
  "Perc_pushed Dt s i c =
     (let SoilWater' = SoilWater s i c - Perc_clamped Dt s i c in
      if SoilWater' > MaxSoilWater s i
      then Perc_clamped Dt s i c + (SoilWater' - MaxSoilWater s i)
      else Perc_clamped Dt s i c)"

text \<open>Lines 157-195: the body of the loop over the layers, for layer \<open>i\<close>.\<close>

definition drain_layer :: "int \<Rightarrow> nat \<Rightarrow> soil \<Rightarrow> nat \<Rightarrow> cell \<Rightarrow> cell" where
  "drain_layer Dt N s i c =
     (if Moist c ! i > FCap s ! i then
        let P = Perc_pushed Dt s i c;
            M = (Moist c)[i := Moist c ! i - P / (RootDepth s ! i * Adjust s ! i)];
            M = (if int i < int N - 1
                 then M[Suc i := M ! Suc i + P / (RootDepth s ! Suc i * Adjust s ! Suc i)]
                 else M)
        in c\<lparr>Perc := (Perc c)[i := P / PercArea s ! i], Moist := M\<rparr>
      else c\<lparr>Perc := (Perc c)[i := 0 / PercArea s ! i]\<rparr>)"

text \<open>Line 156: \<^verbatim>\<open>for (i = 0; i < NSoilLayers; i++)\<close>.\<close>

definition drain_layers :: "int \<Rightarrow> nat \<Rightarrow> soil \<Rightarrow> cell \<Rightarrow> cell" where
  "drain_layers Dt N s c = fold (drain_layer Dt N s) [0..<N] c"

text \<open>Lines 198-200: the drainage of the lowest layer goes to the deep layer.\<close>

definition deep_drainage :: "nat \<Rightarrow> soil \<Rightarrow> cell \<Rightarrow> cell" where
  "deep_drainage N s c =
     (let DeepDrainage = Perc c ! (N - 1) * PercArea s ! (N - 1) in
      c\<lparr>Moist := (Moist c)[N := Moist c ! N + DeepDrainage / (DeepLayerDepth N s * Adjust s ! N)]\<rparr>)"

text \<open>
  Lines 207-219: the new water table; water ponding on the surface becomes runoff. The
  second component is again the local \<open>Infiltration\<close>.
\<close>

definition water_table :: "table_depth_fn \<Rightarrow> int \<Rightarrow> nat \<Rightarrow> soil \<Rightarrow> int \<Rightarrow> cell \<times> real \<Rightarrow> cell \<times> real" where
  "water_table WaterTableDepth DYNAMIC N s InfiltOption ci =
     (let c = fst ci; Infiltration = snd ci;
          r = WaterTableDepth N (TotalDepth s) (RootDepth s) (Porosity s) (FCap s) (Adjust s) (Moist c);
          c = c\<lparr>TableDepth := fst r, Moist := snd r\<rparr>
      in if TableDepth c < 0 then
           (c\<lparr>Runoff := Runoff c + - TableDepth c, TableDepth := 0\<rparr>,
            if InfiltOption = DYNAMIC
            then (if Infiltration > - TableDepth c then Infiltration + TableDepth c else 0)
            else Infiltration)
         else (c, Infiltration))"

text \<open>
  Lines 130-200: the routine up to the call of \<^verbatim>\<open>WaterTableDepth\<close>, with the value of
  its local \<open>Infiltration\<close> there. The arguments \<open>DX\<close>, \<open>DY\<close> and \<open>Area\<close> of the C
  function occur nowhere in its body and are left out; \<open>SatFlow\<close> occurs nowhere in its
  body either and is kept.
\<close>

definition percolated ::
  "int \<Rightarrow> int \<Rightarrow> real \<Rightarrow> real \<Rightarrow> real \<Rightarrow> nat \<Rightarrow> soil \<Rightarrow> int \<Rightarrow> real \<Rightarrow> int \<Rightarrow> cell \<Rightarrow> cell \<times> real" where
  "percolated DYNAMIC Dt Infiltration RoadbedInfiltration SatFlow N s CutBankZone BankHeight
       InfiltOption c =
     (let c = roadbed_infiltration RoadbedInfiltration N s CutBankZone BankHeight c;
          ci = surface_infiltration DYNAMIC Infiltration s InfiltOption c;
          c = drain_layers Dt N s (fst ci);
          c = deep_drainage N s c
      in (c, snd ci))"

text \<open>The whole routine, with the final value of its local \<open>Infiltration\<close>.\<close>

definition UnsaturatedFlow_locals ::
  "table_depth_fn \<Rightarrow> int \<Rightarrow> int \<Rightarrow> real \<Rightarrow> real \<Rightarrow> real \<Rightarrow> nat \<Rightarrow> soil \<Rightarrow> int \<Rightarrow> real \<Rightarrow> int
     \<Rightarrow> cell \<Rightarrow> cell \<times> real" where
  "UnsaturatedFlow_locals WaterTableDepth DYNAMIC Dt Infiltration RoadbedInfiltration SatFlow N s
       CutBankZone BankHeight InfiltOption c =
     water_table WaterTableDepth DYNAMIC N s InfiltOption
       (percolated DYNAMIC Dt Infiltration RoadbedInfiltration SatFlow N s CutBankZone BankHeight
          InfiltOption c)"

text \<open>What the caller sees: the cell.\<close>

definition UnsaturatedFlow ::
  "table_depth_fn \<Rightarrow> int \<Rightarrow> int \<Rightarrow> real \<Rightarrow> real \<Rightarrow> real \<Rightarrow> nat \<Rightarrow> soil \<Rightarrow> int \<Rightarrow> real \<Rightarrow> int
     \<Rightarrow> cell \<Rightarrow> cell" where
  "UnsaturatedFlow WaterTableDepth DYNAMIC Dt Infiltration RoadbedInfiltration SatFlow N s
       CutBankZone BankHeight InfiltOption c =
     fst (UnsaturatedFlow_locals WaterTableDepth DYNAMIC Dt Infiltration RoadbedInfiltration SatFlow
            N s CutBankZone BankHeight InfiltOption c)"

text \<open>
  Two cells that the statements about the loop refer to: the cell after lines 136-153, as
  it enters the loop, and the cell at the start of the iteration for layer \<open>i\<close>, after the
  iterations for the layers above it.
\<close>

definition infiltrated :: "int \<Rightarrow> real \<Rightarrow> real \<Rightarrow> nat \<Rightarrow> soil \<Rightarrow> int \<Rightarrow> real \<Rightarrow> int \<Rightarrow> cell \<Rightarrow> cell" where
  "infiltrated DYNAMIC Infiltration RoadbedInfiltration N s CutBankZone BankHeight InfiltOption c =
     fst (surface_infiltration DYNAMIC Infiltration s InfiltOption
            (roadbed_infiltration RoadbedInfiltration N s CutBankZone BankHeight c))"

definition entering_layer :: "int \<Rightarrow> nat \<Rightarrow> soil \<Rightarrow> nat \<Rightarrow> cell \<Rightarrow> cell" where
  "entering_layer Dt N s i c = fold (drain_layer Dt N s) [0..<i] c"

section \<open>DistributeSatflow\<close>

text \<open>
  The local state of the routine while it distributes the flow: the cumulative \<open>Depth\<close>,
  the flow \<open>SatFlow\<close> still to place, and the moisture array.
\<close>

type_synonym dist = "real \<times> real \<times> real list"

text \<open>Lines 271-289: the body of the extraction loop, for layer \<open>i\<close>.\<close>

definition AvaWater :: "soil \<Rightarrow> real \<Rightarrow> nat \<Rightarrow> real \<Rightarrow> real" where
  "AvaWater s TableDepth' i Depth =
     (if Depth > TableDepth' then
        (if Depth - TableDepth' > RootDepth s ! i
         then (Porosity s ! i - FCap s ! i) * RootDepth s ! i * Adjust s ! i
         else (Porosity s ! i - FCap s ! i) * (Depth - TableDepth') * Adjust s ! i)
      else 0)"

definition next_Depth :: "soil \<Rightarrow> nat \<Rightarrow> real \<Rightarrow> real" where
  "next_Depth s i Depth =
     (if RootDepth s ! i < TotalDepth s - Depth then Depth + RootDepth s ! i else TotalDepth s)"

definition extract_layer :: "soil \<Rightarrow> real \<Rightarrow> nat \<Rightarrow> dist \<Rightarrow> dist" where
  "extract_layer s TableDepth' i st =
     (case st of (Depth, SatFlow, M) \<Rightarrow>
        let Depth = next_Depth s i Depth;
            AvaWater = AvaWater s TableDepth' i Depth;
            ExtracWater = (if - SatFlow > AvaWater then - AvaWater else SatFlow)
        in (Depth, SatFlow - ExtracWater,
            M[i := M ! i + ExtracWater / (RootDepth s ! i * Adjust s ! i)]))"

text \<open>
  Line 270 and lines 290-291:
  \<^verbatim>\<open>for (i = 0; i < NSoilLayers && Depth < TotalDepth; i++) { ...; if (SatFlow == 0.0) break; }\<close>
  over the indices still to visit.
\<close>

fun extract_layers :: "soil \<Rightarrow> real \<Rightarrow> nat list \<Rightarrow> dist \<Rightarrow> dist" where
  "extract_layers s TableDepth' [] st = st"
| "extract_layers s TableDepth' (i # is) st =
     (if fst st < TotalDepth s then
        let st = extract_layer s TableDepth' i st
        in if fst (snd st) = 0 then st else extract_layers s TableDepth' is st
      else st)"

text \<open>Lines 294-309: what the explicit layers could not give is taken from the deep layer.\<close>

definition DeepAvaWater :: "nat \<Rightarrow> soil \<Rightarrow> real \<Rightarrow> real \<Rightarrow> real" where
  "DeepAvaWater N s TableDepth' Depth =
     (let DeepPorosity = Porosity s ! (N - 1); DeepFCap = FCap s ! (N - 1) in
      if Depth < TotalDepth s then
        (if TotalDepth s - TableDepth' > DeepLayerDepth N s
         then (DeepPorosity - DeepFCap) * DeepLayerDepth N s * Adjust s ! N
         else (DeepPorosity - DeepFCap) * (TotalDepth s - TableDepth') * Adjust s ! N)
      else 0)"

definition extract_deep :: "nat \<Rightarrow> soil \<Rightarrow> real \<Rightarrow> dist \<Rightarrow> dist" where
  "extract_deep N s TableDepth' st =
     (case st of (Depth, SatFlow, M) \<Rightarrow>
        if SatFlow < 0 then
          let DeepAvaWater = DeepAvaWater N s TableDepth' Depth;
              Depth = (if Depth < TotalDepth s then TotalDepth s else Depth);
              DeepExtracWater = (if - SatFlow > DeepAvaWater then - DeepAvaWater else SatFlow)
          in (Depth, SatFlow - DeepExtracWater,
              M[N := M ! N + DeepExtracWater / (DeepLayerDepth N s * Adjust s ! N)])
        else st)"

text \<open>Lines 267-310: the extraction branch.\<close>

definition extraction :: "nat \<Rightarrow> soil \<Rightarrow> real \<Rightarrow> dist \<Rightarrow> dist" where
  "extraction N s TableDepth' st =
     (if fst (snd st) < 0
      then extract_deep N s TableDepth' (extract_layers s TableDepth' [0..<N] st)
      else st)"

text \<open>
  Lines 314-322: the deep layer is filled first. Line 317 reads
  \<^verbatim>\<open>if (Depth > (TotalDepth - *TableDepth)); { ... }\<close>: the \<^verbatim>\<open>if\<close> governs the empty
  statement before the brace, and the block runs whatever the comparison gives. The water
  table therefore does not occur in the definition.
\<close>

definition inject_deep :: "nat \<Rightarrow> soil \<Rightarrow> dist \<Rightarrow> dist" where
  "inject_deep N s st =
     (case st of (Depth, SatFlow, M) \<Rightarrow>
        let Depth = Depth + DeepLayerDepth N s;
            DeepPorosity = Porosity s ! (N - 1);
            DeepWaterGap = (DeepPorosity - M ! N) * DeepLayerDepth N s * Adjust s ! N;
            DeepExtracWater = (if SatFlow > DeepWaterGap then DeepWaterGap else SatFlow)
        in (Depth, SatFlow - DeepExtracWater,
            M[N := M ! N + DeepExtracWater / (DeepLayerDepth N s * Adjust s ! N)]))"

text \<open>Lines 326-334: the body of the loop over the explicit layers; line 329 is as line 317.\<close>

definition inject_layer :: "soil \<Rightarrow> nat \<Rightarrow> dist \<Rightarrow> dist" where
  "inject_layer s i st =
     (case st of (Depth, SatFlow, M) \<Rightarrow>
        let Depth = Depth + RootDepth s ! i;
            WaterGap = (Porosity s ! i - M ! i) * RootDepth s ! i * Adjust s ! i;
            ExtracWater = (if SatFlow > WaterGap then WaterGap else SatFlow)
        in (Depth, SatFlow - ExtracWater,
            M[i := M ! i + ExtracWater / (RootDepth s ! i * Adjust s ! i)]))"

text \<open>
  Line 325 and lines 335-336:
  \<^verbatim>\<open>for (i = NSoilLayers - 1; i >= 0; i--) { ...; if (SatFlow == 0.0) break; }\<close>
  over the indices still to visit, the lowest layer first.
\<close>

fun inject_layers :: "soil \<Rightarrow> nat list \<Rightarrow> dist \<Rightarrow> dist" where
  "inject_layers s [] st = st"
| "inject_layers s (i # is) st =
     (let st = inject_layer s i st
      in if fst (snd st) = 0 then st else inject_layers s is st)"

text \<open>Lines 312-339: the injection branch.\<close>

definition injection :: "nat \<Rightarrow> soil \<Rightarrow> dist \<Rightarrow> dist" where
  "injection N s st =
     (if fst (snd st) > 0 then
        let st = inject_deep N s st
        in if fst (snd st) > 0 then inject_layers s (rev [0..<N]) st else st
      else st)"

text \<open>
  Lines 267-342: the routine up to its assertion. The result is the flow that is left
  and the cell. The arguments \<open>Dt\<close>, \<open>DX\<close>, \<open>DY\<close>, \<open>Ks\<close>, \<open>Perc\<close> and \<open>PercArea\<close> of the C
  function occur nowhere in its body.
\<close>

definition DistributeSatflow_body :: "real \<Rightarrow> nat \<Rightarrow> soil \<Rightarrow> cell \<Rightarrow> real \<times> cell" where
  "DistributeSatflow_body SatFlow N s c =
     (let st = extraction N s (TableDepth c) (0, SatFlow, Moist c);
          st = injection N s st;
          SatFlow = fst (snd st);
          c = c\<lparr>Moist := snd (snd st)\<rparr>
      in (SatFlow, if SatFlow > 0 then c\<lparr>Runoff := Runoff c + SatFlow\<rparr> else c))"

text \<open>Line 344: \<^verbatim>\<open>assert(SatFlow >= 0.0)\<close> stops the program when it fails.\<close>

datatype trap = AssertionFailed

definition DistributeSatflow :: "real \<Rightarrow> nat \<Rightarrow> soil \<Rightarrow> cell \<Rightarrow> trap + cell" where
  "DistributeSatflow SatFlow N s c =
     (let r = DistributeSatflow_body SatFlow N s c
      in if fst r \<ge> 0 then Inr (snd r) else Inl AssertionFailed)"

section \<open>DistributeSatflow in float arithmetic\<close>



text \<open>
  The routine again, with the rounding of its arithmetic written out: \<open>fl\<close> is applied to
  the exact result of every addition, subtraction, multiplication and division of
  \<^verbatim>\<open>float\<close> values, each of which C evaluates in \<^verbatim>\<open>float\<close> here (no wider intermediate
  format); negation and comparison are exact. With the identity for \<open>fl\<close> these are the
  definitions of the previous section.
\<close>

text \<open>Lines 252-254.\<close>

definition DeepLayerDepth_float :: "(real \<Rightarrow> real) \<Rightarrow> nat \<Rightarrow> soil \<Rightarrow> real" where
  "DeepLayerDepth_float fl N s = fold (\<lambda>i d. fl (d - RootDepth s ! i)) [0..<N] (TotalDepth s)"

text \<open>Lines 271-289.\<close>

definition AvaWater_float :: "(real \<Rightarrow> real) \<Rightarrow> soil \<Rightarrow> real \<Rightarrow> nat \<Rightarrow> real \<Rightarrow> real" where
  "AvaWater_float fl s TableDepth' i Depth =
     (if Depth > TableDepth' then
        (if fl (Depth - TableDepth') > RootDepth s ! i
         then fl (fl (fl (Porosity s ! i - FCap s ! i) * RootDepth s ! i) * Adjust s ! i)
         else fl (fl (fl (Porosity s ! i - FCap s ! i) * fl (Depth - TableDepth')) * Adjust s ! i))
      else 0)"

definition next_Depth_float :: "(real \<Rightarrow> real) \<Rightarrow> soil \<Rightarrow> nat \<Rightarrow> real \<Rightarrow> real" where
  "next_Depth_float fl s i Depth =
     (if RootDepth s ! i < fl (TotalDepth s - Depth) then fl (Depth + RootDepth s ! i)
      else TotalDepth s)"

definition extract_layer_float :: "(real \<Rightarrow> real) \<Rightarrow> soil \<Rightarrow> real \<Rightarrow> nat \<Rightarrow> dist \<Rightarrow> dist" where
  "extract_layer_float fl s TableDepth' i st =
     (case st of (Depth, SatFlow, M) \<Rightarrow>
        let Depth = next_Depth_float fl s i Depth;
            AvaWater = AvaWater_float fl s TableDepth' i Depth;
            ExtracWater = (if - SatFlow > AvaWater then - AvaWater else SatFlow)
        in (Depth, fl (SatFlow - ExtracWater),
            M[i := fl (M ! i + fl (ExtracWater / fl (RootDepth s ! i * Adjust s ! i)))]))"

text \<open>Line 270 and lines 290-291.\<close>

fun extract_layers_float :: "(real \<Rightarrow> real) \<Rightarrow> soil \<Rightarrow> real \<Rightarrow> nat list \<Rightarrow> dist \<Rightarrow> dist" where
  "extract_layers_float fl s TableDepth' [] st = st"
| "extract_layers_float fl s TableDepth' (i # is) st =
     (if fst st < TotalDepth s then
        let st = extract_layer_float fl s TableDepth' i st
        in if fst (snd st) = 0 then st else extract_layers_float fl s TableDepth' is st
      else st)"

text \<open>Lines 294-309.\<close>

definition DeepAvaWater_float :: "(real \<Rightarrow> real) \<Rightarrow> nat \<Rightarrow> soil \<Rightarrow> real \<Rightarrow> real \<Rightarrow> real" where
  "DeepAvaWater_float fl N s TableDepth' Depth =
     (let DeepPorosity = Porosity s ! (N - 1); DeepFCap = FCap s ! (N - 1) in
      if Depth < TotalDepth s then
        (if fl (TotalDepth s - TableDepth') > DeepLayerDepth_float fl N s
         then fl (fl (fl (DeepPorosity - DeepFCap) * DeepLayerDepth_float fl N s) * Adjust s ! N)
         else fl (fl (fl (DeepPorosity - DeepFCap) * fl (TotalDepth s - TableDepth')) * Adjust s ! N))
      else 0)"

definition extract_deep_float :: "(real \<Rightarrow> real) \<Rightarrow> nat \<Rightarrow> soil \<Rightarrow> real \<Rightarrow> dist \<Rightarrow> dist" where
  "extract_deep_float fl N s TableDepth' st =
     (case st of (Depth, SatFlow, M) \<Rightarrow>
        if SatFlow < 0 then
          let DeepAvaWater = DeepAvaWater_float fl N s TableDepth' Depth;
              Depth = (if Depth < TotalDepth s then TotalDepth s else Depth);
              DeepExtracWater = (if - SatFlow > DeepAvaWater then - DeepAvaWater else SatFlow)
          in (Depth, fl (SatFlow - DeepExtracWater),
              M[N := fl (M ! N + fl (DeepExtracWater / fl (DeepLayerDepth_float fl N s * Adjust s ! N)))])
        else st)"

text \<open>Lines 267-310.\<close>

definition extraction_float :: "(real \<Rightarrow> real) \<Rightarrow> nat \<Rightarrow> soil \<Rightarrow> real \<Rightarrow> dist \<Rightarrow> dist" where
  "extraction_float fl N s TableDepth' st =
     (if fst (snd st) < 0
      then extract_deep_float fl N s TableDepth' (extract_layers_float fl s TableDepth' [0..<N] st)
      else st)"

text \<open>Lines 314-322, with the block after the \<^verbatim>\<open>;\<close> of line 317 unconditional.\<close>

definition inject_deep_float :: "(real \<Rightarrow> real) \<Rightarrow> nat \<Rightarrow> soil \<Rightarrow> dist \<Rightarrow> dist" where
  "inject_deep_float fl N s st =
     (case st of (Depth, SatFlow, M) \<Rightarrow>
        let Depth = fl (Depth + DeepLayerDepth_float fl N s);
            DeepPorosity = Porosity s ! (N - 1);
            DeepWaterGap = fl (fl (fl (DeepPorosity - M ! N) * DeepLayerDepth_float fl N s) * Adjust s ! N);
            DeepExtracWater = (if SatFlow > DeepWaterGap then DeepWaterGap else SatFlow)
        in (Depth, fl (SatFlow - DeepExtracWater),
            M[N := fl (M ! N + fl (DeepExtracWater / fl (DeepLayerDepth_float fl N s * Adjust s ! N)))]))"

text \<open>Lines 326-334, likewise.\<close>

definition inject_layer_float :: "(real \<Rightarrow> real) \<Rightarrow> soil \<Rightarrow> nat \<Rightarrow> dist \<Rightarrow> dist" where
  "inject_layer_float fl s i st =
     (case st of (Depth, SatFlow, M) \<Rightarrow>
        let Depth = fl (Depth + RootDepth s ! i);
            WaterGap = fl (fl (fl (Porosity s ! i - M ! i) * RootDepth s ! i) * Adjust s ! i);
            ExtracWater = (if SatFlow > WaterGap then WaterGap else SatFlow)
        in (Depth, fl (SatFlow - ExtracWater),
            M[i := fl (M ! i + fl (ExtracWater / fl (RootDepth s ! i * Adjust s ! i)))]))"

text \<open>Line 325 and lines 335-336.\<close>

fun inject_layers_float :: "(real \<Rightarrow> real) \<Rightarrow> soil \<Rightarrow> nat list \<Rightarrow> dist \<Rightarrow> dist" where
  "inject_layers_float fl s [] st = st"
| "inject_layers_float fl s (i # is) st =
     (let st = inject_layer_float fl s i st
      in if fst (snd st) = 0 then st else inject_layers_float fl s is st)"

text \<open>Lines 312-339.\<close>

definition injection_float :: "(real \<Rightarrow> real) \<Rightarrow> nat \<Rightarrow> soil \<Rightarrow> dist \<Rightarrow> dist" where
  "injection_float fl N s st =
     (if fst (snd st) > 0 then
        let st = inject_deep_float fl N s st
        in if fst (snd st) > 0 then inject_layers_float fl s (rev [0..<N]) st else st
      else st)"

text \<open>Lines 267-342, and the assertion of line 344.\<close>

definition DistributeSatflow_body_float ::
  "(real \<Rightarrow> real) \<Rightarrow> real \<Rightarrow> nat \<Rightarrow> soil \<Rightarrow> cell \<Rightarrow> real \<times> cell" where
  "DistributeSatflow_body_float fl SatFlow N s c =
     (let st = extraction_float fl N s (TableDepth c) (0, SatFlow, Moist c);
          st = injection_float fl N s st;
          SatFlow = fst (snd st);
          c = c\<lparr>Moist := snd (snd st)\<rparr>
      in (SatFlow, if SatFlow > 0 then c\<lparr>Runoff := fl (Runoff c + SatFlow)\<rparr> else c))"

definition DistributeSatflow_float ::
  "(real \<Rightarrow> real) \<Rightarrow> real \<Rightarrow> nat \<Rightarrow> soil \<Rightarrow> cell \<Rightarrow> trap + cell" where
  "DistributeSatflow_float fl SatFlow N s c =
     (let r = DistributeSatflow_body_float fl SatFlow N s c
      in if fst r \<ge> 0 then Inr (snd r) else Inl AssertionFailed)"

section \<open>Quantities that the statements use\<close>

text \<open>
  The water held by a moisture array, as a depth of water: every explicit layer holds its
  moisture content times its thickness \<open>RootDepth[i] * Adjust[i]\<close>, the deep layer its
  moisture content times \<open>DeepLayerDepth * Adjust[NSoilLayers]\<close>.
\<close>

definition TotalMoisture :: "nat \<Rightarrow> soil \<Rightarrow> real list \<Rightarrow> real" where
  "TotalMoisture N s M =
     (\<Sum>i<N. M ! i * (RootDepth s ! i * Adjust s ! i)) + M ! N * (DeepLayerDepth N s * Adjust s ! N)"

text \<open>
  What the statements on the water balance ask of \<^verbatim>\<open>WaterTableDepth\<close> at a moisture array
  \<open>M\<close>: the water in the array it leaves behind, plus the water it reports as ponding on
  the surface (a negative depth, negated), is the water that was in \<open>M\<close>.
\<close>

definition keeps_water :: "table_depth_fn \<Rightarrow> nat \<Rightarrow> soil \<Rightarrow> real list \<Rightarrow> bool" where
  "keeps_water WaterTableDepth N s M \<longleftrightarrow>
     (let r = WaterTableDepth N (TotalDepth s) (RootDepth s) (Porosity s) (FCap s) (Adjust s) M
      in TotalMoisture N s (snd r) + (if fst r < 0 then - fst r else 0) = TotalMoisture N s M)"

text \<open>The arrays have the lengths that the routines take for granted.\<close>

definition sized :: "nat \<Rightarrow> soil \<Rightarrow> cell \<Rightarrow> bool" where
  "sized N s c \<longleftrightarrow>
     0 < N \<and> length (RootDepth s) = N \<and> length (Ks s) = N \<and> length (PoreDist s) = N \<and>
     length (Porosity s) = N \<and> length (FCap s) = N \<and> length (PercArea s) = N \<and>
     length (Adjust s) = Suc N \<and> length (Perc c) = N \<and> length (Moist c) = Suc N"






text \<open>Every layer, the deep layer too, has a positive thickness and adjustment factor.\<close>

definition positive_thickness :: "nat \<Rightarrow> soil \<Rightarrow> bool" where
  "positive_thickness N s \<longleftrightarrow>
     (\<forall>i<N. 0 < RootDepth s ! i \<and> 0 < Adjust s ! i) \<and> 0 < DeepLayerDepth N s \<and> 0 < Adjust s ! N"

subsection \<open>Data of the examples\<close>

text \<open>
  A stand-in for \<^verbatim>\<open>WaterTableDepth\<close> in the examples: it reports the depth \<open>d\<close> and leaves
  the moisture array as it is.
\<close>

definition table_at :: "real \<Rightarrow> table_depth_fn" where
  "table_at d N TD RD Po FC Ad M = (d, M)"

text \<open>
  A column of two layers, 0.5 and 1 thick, over a deep layer 0.5 thick, every layer at
  field capacity and the water table at the bottom of the profile.
\<close>

definition example_soil :: soil where
  "example_soil =
     \<lparr>TotalDepth = 2, RootDepth = [1/2, 1], Ks = [1/1024, 1/1024], PoreDist = [2, 2],
      Porosity = [1/2, 1/2], FCap = [1/4, 1/4], PercArea = [1, 1], Adjust = [1, 1, 1]\<rparr>"

definition example_cell :: cell where
  "example_cell = \<lparr>Perc = [0, 0], TableDepth = 2, Runoff = 0, Moist = [1/4, 1/4, 1/4]\<rparr>"

text \<open>A column of one layer 1 thick over a deep layer 1 thick.\<close>

definition one_layer_soil :: soil where
  "one_layer_soil =
     \<lparr>TotalDepth = 2, RootDepth = [1], Ks = [1], PoreDist = [2], Porosity = [1], FCap = [1/4],
      PercArea = [1], Adjust = [1, 1]\<rparr>"

definition one_layer_cell :: cell where
  "one_layer_cell = \<lparr>Perc = [0], TableDepth = 2, Runoff = 0, Moist = [1/2, 1/4]\<rparr>"



section \<open>Evaluation\<close>

lemma upt_0_2: "[0..<2] = [0, 1]"
  by (simp add: numeral_2_eq_2)

lemmas UnsaturatedFlow_defs =
  UnsaturatedFlow_def UnsaturatedFlow_locals_def percolated_def roadbed_infiltration_def
  surface_infiltration_def drain_layers_def drain_layer_def deep_drainage_def water_table_def
  DeepLayerDepth_def

lemmas DistributeSatflow_defs =
  DistributeSatflow_def DistributeSatflow_body_def extraction_def injection_def
  extract_layer_def extract_deep_def AvaWater_def DeepAvaWater_def next_Depth_def
  inject_deep_def inject_layer_def DeepLayerDepth_def

section \<open>Zero flow\<close>

text \<open>
  C7. \<open>DistributeSatflow\<close> with a flow of 0 returns without trapping and returns the cell
  it was given: no entry of \<open>Moist\<close> and not the runoff has changed.
\<close>

theorem DistributeSatflow_zero_flow: "DistributeSatflow 0 N s c = Inr c"
  by (simp add: DistributeSatflow_def DistributeSatflow_body_def extraction_def injection_def)

section \<open>The infiltration option\<close>

lemma fst_surface_infiltration:
  "fst (surface_infiltration D I s opt c) = fst (surface_infiltration D I s opt' c)"
  by (simp add: surface_infiltration_def)

lemma fst_water_table:
  "fst (water_table W D N s opt (c, x)) = fst (water_table W D N s opt' (c, y))"
  by (simp add: water_table_def Let_def)

text \<open>
  C9. The cell that \<open>UnsaturatedFlow\<close> returns (\<open>Moist\<close>, \<open>Perc\<close>, \<open>TableDepth\<close>, \<open>Runoff\<close>) is
  the same for any two values of \<open>InfiltOption\<close>, on every input: the option only decides
  what is assigned to the local copy of \<open>Infiltration\<close>, which nothing reads afterwards.
\<close>

theorem UnsaturatedFlow_InfiltOption:
  "UnsaturatedFlow W DYNAMIC Dt I R SF N s Z BH InfiltOption c =
   UnsaturatedFlow W DYNAMIC Dt I R SF N s Z BH InfiltOption' c"
  unfolding UnsaturatedFlow_def UnsaturatedFlow_locals_def percolated_def Let_def
  using fst_surface_infiltration fst_water_table by metis

section \<open>Roadbed infiltration without a cut bank\<close>

text \<open>
  C10. When the water table is below the cut (\<open>TableDepth > BankHeight\<close>) and
  \<open>CutBankZone\<close> is negative, the roadbed step changes nothing: the roadbed infiltration
  goes to no layer, not to the deep layer and not to the runoff. The cell that
  \<open>UnsaturatedFlow\<close> returns is the one it returns for a roadbed infiltration of 0.
\<close>

theorem roadbed_infiltration_dropped:
  assumes "TableDepth c > BankHeight" and "CutBankZone < 0"
  shows "roadbed_infiltration R N s CutBankZone BankHeight c = c \<and>
     UnsaturatedFlow W DYNAMIC Dt I R SF N s CutBankZone BankHeight opt c =
     UnsaturatedFlow W DYNAMIC Dt I 0 SF N s CutBankZone BankHeight opt c"
  using assms
  by (simp add: UnsaturatedFlow_def UnsaturatedFlow_locals_def percolated_def
      roadbed_infiltration_def)

theorem roadbed_infiltration_dropped_witness:
  "TableDepth example_cell > 1 \<and> (- 1 :: int) < 0 \<and>
   roadbed_infiltration (1/4) 2 example_soil (- 1) 1 example_cell = example_cell \<and>
   UnsaturatedFlow (table_at 2) 2 1 0 (1/4) 0 2 example_soil (- 1) 1 2 example_cell =
   UnsaturatedFlow (table_at 2) 2 1 0 0 0 2 example_soil (- 1) 1 2 example_cell"
  using roadbed_infiltration_dropped [where c = example_cell and BankHeight = 1
      and CutBankZone = "- 1" and R = "1/4" and N = 2 and s = example_soil and W = "table_at 2"
      and DYNAMIC = 2 and Dt = 1 and I = 0 and SF = 0 and opt = 2]
  by (simp add: example_cell_def)

section \<open>The extraction scenario\<close>

text \<open>
  C8. The column of two layers 0.5 and 1 thick, total depth 2, porosities 0.45 and 0.40,
  field capacities 0.20 and 0.25, every adjustment factor 1, table depth 0.3, with a flow
  of -0.02 (the other arrays, the runoff and the moisture contents are arbitrary). Layer
  0 holds the water table; its available water is \<open>(0.45 - 0.20) * 1 * (0.5 - 0.3)\<close>, which
  covers the demand, so nothing is left for a lower layer. On exit the flow left is 0,
  only \<open>Moist[0]\<close> has changed, the water held has gone down by 0.02, the runoff is
  unchanged and the routine has not trapped.
\<close>

theorem extraction_scenario:
  fixes s :: soil and c :: cell and ks pd pa p :: "real list" and r m0 m1 m2 :: real
  defines "s \<equiv> \<lparr>TotalDepth = 2, RootDepth = [1/2, 1], Ks = ks, PoreDist = pd,
      Porosity = [45/100, 40/100], FCap = [20/100, 25/100], PercArea = pa, Adjust = [1, 1, 1]\<rparr>"
    and "c \<equiv> \<lparr>Perc = p, TableDepth = 3/10, Runoff = r, Moist = [m0, m1, m2]\<rparr>"
  shows "AvaWater s (TableDepth c) 0 (next_Depth s 0 0) = (45/100 - 20/100) * 1 * (1/2 - 3/10) \<and>
     DistributeSatflow_body (- 2/100) 2 s c = (0, c\<lparr>Moist := [m0 - (2/100) / (1/2), m1, m2]\<rparr>) \<and>
     DistributeSatflow (- 2/100) 2 s c = Inr (c\<lparr>Moist := [m0 - (2/100) / (1/2), m1, m2]\<rparr>) \<and>
     TotalMoisture 2 s (Moist c) - TotalMoisture 2 s (Moist (snd (DistributeSatflow_body (- 2/100) 2 s c)))
       = 2/100 \<and>
     Runoff (snd (DistributeSatflow_body (- 2/100) 2 s c)) = Runoff c"
  by (simp add: s_def c_def DistributeSatflow_defs TotalMoisture_def upt_0_2 numeral_2_eq_2
      diff_divide_distrib)

section \<open>The loop over the layers\<close>

lemma length_Moist_drain_layer [simp]:
  "length (Moist (drain_layer Dt N s i c)) = length (Moist c)"
  by (simp add: drain_layer_def Let_def)

lemma length_Perc_drain_layer [simp]:
  "length (Perc (drain_layer Dt N s i c)) = length (Perc c)"
  by (simp add: drain_layer_def Let_def)

lemma Moist_drain_layer_other:
  "j \<noteq> i \<Longrightarrow> j \<noteq> Suc i \<Longrightarrow> Moist (drain_layer Dt N s i c) ! j = Moist c ! j"
  by (simp add: drain_layer_def Let_def)

lemma Perc_drain_layer_other:
  "j \<noteq> i \<Longrightarrow> Perc (drain_layer Dt N s i c) ! j = Perc c ! j"
  by (simp add: drain_layer_def Let_def)

lemma Runoff_drain_layer [simp]: "Runoff (drain_layer Dt N s i c) = Runoff c"
  by (simp add: drain_layer_def Let_def)

lemma TableDepth_drain_layer [simp]: "TableDepth (drain_layer Dt N s i c) = TableDepth c"
  by (simp add: drain_layer_def Let_def)

lemma length_Moist_fold_drain [simp]:
  "length (Moist (fold (drain_layer Dt N s) js c)) = length (Moist c)"
  by (induction js arbitrary: c) simp_all

lemma length_Perc_fold_drain [simp]:
  "length (Perc (fold (drain_layer Dt N s) js c)) = length (Perc c)"
  by (induction js arbitrary: c) simp_all

lemma Runoff_fold_drain [simp]: "Runoff (fold (drain_layer Dt N s) js c) = Runoff c"
  by (induction js arbitrary: c) simp_all

lemma TableDepth_fold_drain [simp]: "TableDepth (fold (drain_layer Dt N s) js c) = TableDepth c"
  by (induction js arbitrary: c) simp_all

lemma Moist_fold_drain_other:
  "\<forall>j\<in>set js. i \<noteq> j \<and> i \<noteq> Suc j \<Longrightarrow> Moist (fold (drain_layer Dt N s) js c) ! i = Moist c ! i"
  by (induction js arbitrary: c) (simp_all add: Moist_drain_layer_other)

lemma Perc_fold_drain_other:
  "i \<notin> set js \<Longrightarrow> Perc (fold (drain_layer Dt N s) js c) ! i = Perc c ! i"
  by (induction js arbitrary: c) (simp_all add: Perc_drain_layer_other)

lemma upt_split: "i < N \<Longrightarrow> [0..<N] = [0..<i] @ i # [Suc i..<N]"
  by (metis upt_conv_Cons upt_add_eq_append le_add_diff_inverse less_imp_le zero_le)

lemma drain_layers_split:
  "i < N \<Longrightarrow> drain_layers Dt N s c =
     fold (drain_layer Dt N s) [Suc i..<N] (drain_layer Dt N s i (fold (drain_layer Dt N s) [0..<i] c))"
  by (simp add: drain_layers_def upt_split [of i N])

lemma Moist_drain_layers:
  "i < N \<Longrightarrow> Moist (drain_layers Dt N s c) ! i =
     Moist (drain_layer Dt N s i (fold (drain_layer Dt N s) [0..<i] c)) ! i"
  by (simp add: drain_layers_split Moist_fold_drain_other)

lemma Perc_drain_layers:
  "i < N \<Longrightarrow> Perc (drain_layers Dt N s c) ! i =
     Perc (drain_layer Dt N s i (fold (drain_layer Dt N s) [0..<i] c)) ! i"
  by (simp add: drain_layers_split Perc_fold_drain_other)

lemma Perc_clamped_le: "Perc_clamped Dt s i c \<le> SoilWater s i c - FieldCapacity s i"
  by (simp add: Perc_clamped_def)

lemma Perc_pushed_le:
  "FieldCapacity s i \<le> MaxSoilWater s i \<Longrightarrow> Perc_pushed Dt s i c \<le> SoilWater s i c - FieldCapacity s i"
  using Perc_clamped_le [of Dt s i c] by (simp add: Perc_pushed_def Let_def)

lemma FieldCapacity_le_MaxSoilWater:
  "FCap s ! i \<le> Porosity s ! i \<Longrightarrow> 0 \<le> RootDepth s ! i \<Longrightarrow> 0 \<le> Adjust s ! i \<Longrightarrow>
     FieldCapacity s i \<le> MaxSoilWater s i"
  by (simp add: FieldCapacity_def MaxSoilWater_def mult_left_mono mult_right_mono)

lemma Moist_drain_layer_ge_FCap:
  assumes "FCap s ! i < Moist c ! i" "i < length (Moist c)" "FCap s ! i \<le> Porosity s ! i"
    "0 < Adjust s ! i" "0 < RootDepth s ! i"
  shows "FCap s ! i \<le> Moist (drain_layer Dt N s i c) ! i"
proof -
  let ?T = "RootDepth s ! i * Adjust s ! i"
  let ?P = "Perc_pushed Dt s i c"
  have T: "0 < ?T" using assms by simp
  have "?P \<le> SoilWater s i c - FieldCapacity s i"
    using assms by (intro Perc_pushed_le FieldCapacity_le_MaxSoilWater) simp_all
  also have "\<dots> = (Moist c ! i - FCap s ! i) * ?T"
    by (simp add: SoilWater_def FieldCapacity_def algebra_simps)
  finally have "?P / ?T \<le> Moist c ! i - FCap s ! i"
    using T by (simp add: pos_divide_le_eq)
  moreover have "Moist (drain_layer Dt N s i c) ! i = Moist c ! i - ?P / ?T"
    using assms by (simp add: drain_layer_def Let_def)
  ultimately show ?thesis by simp
qed


lemma fst_percolated:
  "fst (percolated D Dt I R SF N s Z BH opt c) =
     deep_drainage N s (drain_layers Dt N s (infiltrated D I R N s Z BH opt c))"
  by (simp add: percolated_def infiltrated_def Let_def)

lemma length_Moist_infiltrated [simp]:
  "length (Moist (infiltrated D I R N s Z BH opt c)) = length (Moist c)"
  by (simp add: infiltrated_def surface_infiltration_def roadbed_infiltration_def)

lemma Perc_infiltrated [simp]: "Perc (infiltrated D I R N s Z BH opt c) = Perc c"
  by (simp add: infiltrated_def surface_infiltration_def roadbed_infiltration_def)

lemma Moist_deep_drainage_layer: "i < N \<Longrightarrow> Moist (deep_drainage N s c) ! i = Moist c ! i"
  by (simp add: deep_drainage_def Let_def)

lemma Perc_deep_drainage [simp]: "Perc (deep_drainage N s c) = Perc c"
  by (simp add: deep_drainage_def Let_def)

lemma Perc_UnsaturatedFlow:
  "Perc (UnsaturatedFlow W D Dt I R SF N s Z BH opt c) =
     Perc (drain_layers Dt N s (infiltrated D I R N s Z BH opt c))"
  by (simp add: UnsaturatedFlow_def UnsaturatedFlow_locals_def water_table_def Let_def
      fst_percolated split: prod.split)

section \<open>The water table on exit\<close>

lemma Runoff_percolated:
  "Runoff (fst (percolated D Dt I R SF N s Z BH opt c)) =
     Runoff c + (if TableDepth c \<le> BH then R else 0) + (if TableDepth c \<le> 0 then I else 0)"
  by (simp add: percolated_def Let_def drain_layers_def deep_drainage_def
      surface_infiltration_def roadbed_infiltration_def)

text \<open>
  C5. On exit from \<open>UnsaturatedFlow\<close> the table depth is not negative. With \<open>p\<close> the cell
  just before the call of \<^verbatim>\<open>WaterTableDepth\<close> and \<open>d\<close> the depth that the call returns:
  when \<open>d\<close> is negative the runoff on exit is the runoff of \<open>p\<close> plus \<open>|d|\<close> and the table
  depth on exit is 0; otherwise the runoff is that of \<open>p\<close> and the table depth is \<open>d\<close>.
  The runoff of \<open>p\<close> is the runoff on entry plus the infiltration that lines 137 and 147
  have sent to it.
\<close>

theorem TableDepth_on_exit:
  "let p = fst (percolated DYNAMIC Dt I R SF N s Z BH opt c);
       d = fst (W N (TotalDepth s) (RootDepth s) (Porosity s) (FCap s) (Adjust s) (Moist p));
       c' = UnsaturatedFlow W DYNAMIC Dt I R SF N s Z BH opt c
   in 0 \<le> TableDepth c' \<and>
      (d < 0 \<longrightarrow> Runoff c' = Runoff p + \<bar>d\<bar> \<and> TableDepth c' = 0) \<and>
      (0 \<le> d \<longrightarrow> Runoff c' = Runoff p \<and> TableDepth c' = d) \<and>
      Runoff p = Runoff c + (if TableDepth c \<le> BH then R else 0) + (if TableDepth c \<le> 0 then I else 0)"
  using Runoff_percolated [of DYNAMIC Dt I R SF N s Z BH opt c]
  by (simp add: UnsaturatedFlow_def UnsaturatedFlow_locals_def water_table_def Let_def)

theorem TableDepth_on_exit_witness:
  "fst (table_at (- 1/4) 2 (TotalDepth example_soil) (RootDepth example_soil)
      (Porosity example_soil) (FCap example_soil) (Adjust example_soil)
      (Moist (fst (percolated 2 1 0 0 0 2 example_soil (- 1) 1 2 example_cell)))) < 0 \<and>
   Runoff (fst (percolated 2 1 0 0 0 2 example_soil (- 1) 1 2 example_cell)) = 0 \<and>
   Runoff (UnsaturatedFlow (table_at (- 1/4)) 2 1 0 0 0 2 example_soil (- 1) 1 2 example_cell) = 1/4 \<and>
   TableDepth (UnsaturatedFlow (table_at (- 1/4)) 2 1 0 0 0 2 example_soil (- 1) 1 2 example_cell) = 0 \<and>
   0 \<le> fst (table_at 2 2 (TotalDepth example_soil) (RootDepth example_soil)
      (Porosity example_soil) (FCap example_soil) (Adjust example_soil)
      (Moist (fst (percolated 2 1 0 0 0 2 example_soil (- 1) 1 2 example_cell)))) \<and>
   Runoff (UnsaturatedFlow (table_at 2) 2 1 0 0 0 2 example_soil (- 1) 1 2 example_cell) = 0 \<and>
   TableDepth (UnsaturatedFlow (table_at 2) 2 1 0 0 0 2 example_soil (- 1) 1 2 example_cell) = 2"
  using TableDepth_on_exit [where W = "table_at (- 1/4)" and DYNAMIC = 2 and Dt = 1 and I = 0
      and R = 0 and SF = 0 and N = 2 and s = example_soil and Z = "- 1" and BH = 1 and opt = 2
      and c = example_cell]
    TableDepth_on_exit [where W = "table_at 2" and DYNAMIC = 2 and Dt = 1 and I = 0
      and R = 0 and SF = 0 and N = 2 and s = example_soil and Z = "- 1" and BH = 1 and opt = 2
      and c = example_cell]
  by (simp add: Let_def table_at_def UnsaturatedFlow_defs example_soil_def example_cell_def upt_0_2)

section \<open>Moisture of a drained layer\<close>

text \<open>
  C4. Let \<open>e\<close> be the cell at the start of the iteration for layer \<open>i\<close> in a call of
  \<open>UnsaturatedFlow\<close>. If the layer drains (\<open>Moist[i] > FCap[i]\<close> in \<open>e\<close>), with
  \<open>Porosity[i] \<ge> FCap[i]\<close>, \<open>Adjust[i] > 0\<close> and \<open>RootDepth[i] > 0\<close>, then after the iteration
  \<open>Moist[i]\<close> is at least \<open>FCap[i]\<close>, and that is still the value of \<open>Moist[i]\<close> when the loop
  and the deep drainage are done, before the water table is computed.
\<close>

theorem drained_layer_keeps_FCap:
  fixes e c :: cell and s :: soil and N i :: nat and Dt DYNAMIC Z opt :: int and I R SF BH :: real
  defines "e \<equiv> entering_layer Dt N s i (infiltrated DYNAMIC I R N s Z BH opt c)"
  assumes "sized N s c" and "i < N"
    and "FCap s ! i \<le> Porosity s ! i" and "0 < Adjust s ! i" and "0 < RootDepth s ! i"
    and "FCap s ! i < Moist e ! i"
  shows "FCap s ! i \<le> Moist (drain_layer Dt N s i e) ! i \<and>
     Moist (fst (percolated DYNAMIC Dt I R SF N s Z BH opt c)) ! i = Moist (drain_layer Dt N s i e) ! i"
proof -
  have "i < length (Moist e)"
    using assms(2,3) by (simp add: e_def entering_layer_def sized_def)
  then have "FCap s ! i \<le> Moist (drain_layer Dt N s i e) ! i"
    using assms by (intro Moist_drain_layer_ge_FCap) simp_all
  moreover have "Moist (fst (percolated DYNAMIC Dt I R SF N s Z BH opt c)) ! i =
      Moist (drain_layer Dt N s i e) ! i"
    using \<open>i < N\<close>
    by (simp add: fst_percolated Moist_deep_drainage_layer Moist_drain_layers e_def entering_layer_def)
  ultimately show ?thesis by simp
qed

theorem drained_layer_keeps_FCap_witness:
  "sized 2 example_soil (example_cell\<lparr>Moist := [3/4, 1/4, 1/4]\<rparr>) \<and> (0::nat) < 2 \<and>
   FCap example_soil ! 0 \<le> Porosity example_soil ! 0 \<and> 0 < Adjust example_soil ! 0 \<and>
   0 < RootDepth example_soil ! 0 \<and>
   FCap example_soil ! 0 < Moist (entering_layer 1024 2 example_soil 0
      (infiltrated 2 0 0 2 example_soil (- 1) 1 2 (example_cell\<lparr>Moist := [3/4, 1/4, 1/4]\<rparr>))) ! 0 \<and>
   FCap example_soil ! 0 \<le> Moist (drain_layer 1024 2 example_soil 0 (entering_layer 1024 2 example_soil 0
      (infiltrated 2 0 0 2 example_soil (- 1) 1 2 (example_cell\<lparr>Moist := [3/4, 1/4, 1/4]\<rparr>)))) ! 0 \<and>
   Moist (fst (percolated 2 1024 0 0 0 2 example_soil (- 1) 1 2 (example_cell\<lparr>Moist := [3/4, 1/4, 1/4]\<rparr>))) ! 0
     = 1/4"
  using drained_layer_keeps_FCap [where N = 2 and s = example_soil and i = 0 and Dt = 1024
      and DYNAMIC = 2 and I = 0 and R = 0 and SF = 0 and Z = "- 1" and BH = 1 and opt = 2
      and c = "example_cell\<lparr>Moist := [3/4, 1/4, 1/4]\<rparr>"]
  by (simp add: sized_def example_soil_def example_cell_def entering_layer_def infiltrated_def
      UnsaturatedFlow_defs Perc_pushed_def Perc_clamped_def Perc_averaged_def Drainage_def pow_def
      SoilWater_def FieldCapacity_def MaxSoilWater_def Let_def upt_0_2)


section \<open>Sign of the percolation\<close>

lemma pow_nonneg: "0 < x \<Longrightarrow> 0 \<le> pow x y"
  by (simp add: pow_def)

lemma Drainage_nonneg:
  assumes "0 \<le> Ks s ! i" and "0 \<le> Dt" and "0 \<le> FCap s ! i" and "FCap s ! i < Moist c ! i"
  shows "0 \<le> Drainage Dt s i c"
proof (cases "Porosity s ! i < Moist c ! i")
  case True
  then show ?thesis using assms(1,2) by (simp add: Drainage_def Let_def)
next
  case False
  then have "0 < Moist c ! i / Porosity s ! i" using assms(3,4) by simp
  then have "0 \<le> pow (Moist c ! i / Porosity s ! i) (2 / PoreDist s ! i + 3)" by (rule pow_nonneg)
  then show ?thesis using False assms(1,2) by (simp add: Drainage_def Let_def)
qed

lemma Perc_averaged_nonneg:
  assumes "0 \<le> Perc c ! i" and "0 \<le> Ks s ! i" and "0 \<le> Dt" and "0 < PercArea s ! i"
    and "0 \<le> FCap s ! i" and "FCap s ! i < Moist c ! i"
  shows "0 \<le> Perc_averaged Dt s i c"
  using Drainage_nonneg [OF assms(2,3,5,6)] assms(1,4) by (simp add: Perc_averaged_def)

lemma Perc_clamped_nonneg:
  assumes "0 \<le> Perc_averaged Dt s i c" "FCap s ! i < Moist c ! i" "0 \<le> RootDepth s ! i * Adjust s ! i"
  shows "0 \<le> Perc_clamped Dt s i c"
proof -
  have "SoilWater s i c - FieldCapacity s i = (Moist c ! i - FCap s ! i) * (RootDepth s ! i * Adjust s ! i)"
    by (simp add: SoilWater_def FieldCapacity_def algebra_simps)
  then have "0 \<le> SoilWater s i c - FieldCapacity s i"
    using assms(2,3) by simp
  then show ?thesis using assms(1) by (simp add: Perc_clamped_def)
qed

lemma Perc_pushed_nonneg: "0 \<le> Perc_clamped Dt s i c \<Longrightarrow> 0 \<le> Perc_pushed Dt s i c"
  by (simp add: Perc_pushed_def Let_def)

lemma Perc_drain_layer:
  "i < length (Perc c) \<Longrightarrow> Perc (drain_layer Dt N s i c) ! i =
     (if FCap s ! i < Moist c ! i then Perc_pushed Dt s i c / PercArea s ! i else 0 / PercArea s ! i)"
  by (simp add: drain_layer_def Let_def)

text \<open>
  C6. For a layer of the data model (a time step \<open>Dt \<ge> 0\<close>, a thickness
  \<open>RootDepth[i] * Adjust[i] \<ge> 0\<close>, a field capacity \<open>FCap[i] \<ge> 0\<close>) and under the claim's
  preconditions (\<open>Perc[i] \<ge> 0\<close> on entry, \<open>Ks[i] \<ge> 0\<close>, \<open>PercArea[i] > 0\<close>,
  \<open>Porosity[i] \<ge> FCap[i]\<close>), with \<open>e\<close> the cell at the start of the iteration for layer \<open>i\<close>:
  \<open>Perc[i]\<close> is in \<open>e\<close> what it was on entry; when the layer drains, the values assigned
  in lines 169, 177 and 184 are not negative; the value that the iteration leaves in
  \<open>Perc[i]\<close> (line 195, in either branch) is not negative; and it is the value of \<open>Perc[i]\<close>
  when \<open>UnsaturatedFlow\<close> returns.
\<close>

theorem Perc_nonnegative:
  fixes e c :: cell and s :: soil and N i :: nat and Dt DYNAMIC Z opt :: int and I R SF BH :: real
    and W :: table_depth_fn
  defines "e \<equiv> entering_layer Dt N s i (infiltrated DYNAMIC I R N s Z BH opt c)"
  assumes "sized N s c" and "i < N"
    and "0 \<le> Perc c ! i" and "0 \<le> Ks s ! i" and "0 < PercArea s ! i"
    and "FCap s ! i \<le> Porosity s ! i"
    and "0 \<le> Dt" and "0 \<le> RootDepth s ! i * Adjust s ! i" and "0 \<le> FCap s ! i"
  shows "Perc e ! i = Perc c ! i \<and>
     (FCap s ! i < Moist e ! i \<longrightarrow>
        0 \<le> Perc_averaged Dt s i e \<and> 0 \<le> Perc_clamped Dt s i e \<and> 0 \<le> Perc_pushed Dt s i e) \<and>
     0 \<le> Perc (drain_layer Dt N s i e) ! i \<and>
     Perc (UnsaturatedFlow W DYNAMIC Dt I R SF N s Z BH opt c) ! i = Perc (drain_layer Dt N s i e) ! i"
proof -
  have entry: "Perc e ! i = Perc c ! i"
    by (simp add: e_def entering_layer_def Perc_fold_drain_other)
  have len: "i < length (Perc e)"
    using assms(2,3) by (simp add: e_def entering_layer_def sized_def)
  have avg: "0 \<le> Perc_averaged Dt s i e" if "FCap s ! i < Moist e ! i"
    using assms(4,5,6,8,10) entry that by (intro Perc_averaged_nonneg) simp_all
  have cl: "0 \<le> Perc_clamped Dt s i e" if "FCap s ! i < Moist e ! i"
    using avg [OF that] that assms(9) by (rule Perc_clamped_nonneg)
  have pu: "0 \<le> Perc_pushed Dt s i e" if "FCap s ! i < Moist e ! i"
    using cl [OF that] by (rule Perc_pushed_nonneg)
  have "0 \<le> Perc (drain_layer Dt N s i e) ! i"
    using len pu assms(6) by (simp add: Perc_drain_layer)
  moreover have "Perc (UnsaturatedFlow W DYNAMIC Dt I R SF N s Z BH opt c) ! i =
      Perc (drain_layer Dt N s i e) ! i"
    using \<open>i < N\<close> by (simp add: Perc_UnsaturatedFlow Perc_drain_layers e_def entering_layer_def)
  ultimately show ?thesis using entry avg cl pu by simp
qed

theorem Perc_nonnegative_witness:
  "sized 2 example_soil (example_cell\<lparr>Moist := [3/8, 1/4, 1/4]\<rparr>) \<and> (0::nat) < 2 \<and>
   0 \<le> Perc (example_cell\<lparr>Moist := [3/8, 1/4, 1/4]\<rparr>) ! 0 \<and> 0 \<le> Ks example_soil ! 0 \<and>
   0 < PercArea example_soil ! 0 \<and> FCap example_soil ! 0 \<le> Porosity example_soil ! 0 \<and>
   (0::int) \<le> 1024 \<and> 0 \<le> RootDepth example_soil ! 0 * Adjust example_soil ! 0 \<and>
   0 \<le> FCap example_soil ! 0 \<and>
   FCap example_soil ! 0 < Moist (entering_layer 1024 2 example_soil 0
      (infiltrated 2 0 0 2 example_soil (- 1) 1 2 (example_cell\<lparr>Moist := [3/8, 1/4, 1/4]\<rparr>))) ! 0 \<and>
   Drainage 1024 example_soil 0 (entering_layer 1024 2 example_soil 0
      (infiltrated 2 0 0 2 example_soil (- 1) 1 2 (example_cell\<lparr>Moist := [3/8, 1/4, 1/4]\<rparr>))) = 81/256 \<and>
   Perc_averaged 1024 example_soil 0 (entering_layer 1024 2 example_soil 0
      (infiltrated 2 0 0 2 example_soil (- 1) 1 2 (example_cell\<lparr>Moist := [3/8, 1/4, 1/4]\<rparr>))) = 81/512 \<and>
   Perc_clamped 1024 example_soil 0 (entering_layer 1024 2 example_soil 0
      (infiltrated 2 0 0 2 example_soil (- 1) 1 2 (example_cell\<lparr>Moist := [3/8, 1/4, 1/4]\<rparr>))) = 1/16 \<and>
   Perc (UnsaturatedFlow (table_at 2) 2 1024 0 0 0 2 example_soil (- 1) 1 2
      (example_cell\<lparr>Moist := [3/8, 1/4, 1/4]\<rparr>)) ! 0 = 1/16 \<and>
   0 \<le> Perc (UnsaturatedFlow (table_at 2) 2 1024 0 0 0 2 example_soil (- 1) 1 2
      (example_cell\<lparr>Moist := [3/8, 1/4, 1/4]\<rparr>)) ! 0"
  using Perc_nonnegative [where N = 2 and s = example_soil and i = 0 and Dt = 1024
      and DYNAMIC = 2 and I = 0 and R = 0 and SF = 0 and Z = "- 1" and BH = 1 and opt = 2
      and c = "example_cell\<lparr>Moist := [3/8, 1/4, 1/4]\<rparr>" and W = "table_at 2"]
  by (simp add: sized_def example_soil_def example_cell_def entering_layer_def infiltrated_def
      UnsaturatedFlow_defs Perc_pushed_def Perc_clamped_def Perc_averaged_def Drainage_def pow_def
      SoilWater_def FieldCapacity_def MaxSoilWater_def Let_def upt_0_2 table_at_def power_divide)

text \<open>
  Outside the data model the sign is not kept. Each of the three calls below meets the
  claim's own preconditions and returns a negative \<open>Perc[0]\<close>: the first with a negative
  time step (\<open>-1/32\<close>, from the average of line 169), the second with a negative thickness
  \<open>RootDepth[0] * Adjust[0]\<close> (\<open>-1\<close>, from lines 177 and 184), the third with a negative field
  capacity and moisture, where \<open>pow(-0.5, 5.0)\<close> is \<open>-1/32\<close> (\<open>-1/64\<close>, from line 169).
\<close>

lemma Perc_negative_outside_data_model:
  "0 \<le> Perc one_layer_cell ! 0 \<and> 0 \<le> Ks one_layer_soil ! 0 \<and> 0 < PercArea one_layer_soil ! 0 \<and>
   FCap one_layer_soil ! 0 \<le> Porosity one_layer_soil ! 0 \<and>
   Perc (UnsaturatedFlow (table_at 2) 2 (- 1) 0 0 0 1 one_layer_soil (- 1) 1 2 one_layer_cell) ! 0
     = - 1/32 \<and>
   FCap (one_layer_soil\<lparr>Adjust := [- 1, 1]\<rparr>) ! 0 \<le> Porosity (one_layer_soil\<lparr>Adjust := [- 1, 1]\<rparr>) ! 0 \<and>
   Perc (UnsaturatedFlow (table_at 2) 2 1 0 0 0 1 (one_layer_soil\<lparr>Adjust := [- 1, 1]\<rparr>) (- 1) 1 2
          (one_layer_cell\<lparr>Moist := [2, 1/4]\<rparr>)) ! 0 = - 1 \<and>
   FCap (one_layer_soil\<lparr>FCap := [- 1], PoreDist := [1]\<rparr>) ! 0
     \<le> Porosity (one_layer_soil\<lparr>FCap := [- 1], PoreDist := [1]\<rparr>) ! 0 \<and>
   Perc (UnsaturatedFlow (table_at 2) 2 1 0 0 0 1 (one_layer_soil\<lparr>FCap := [- 1], PoreDist := [1]\<rparr>)
          (- 1) 1 2 (one_layer_cell\<lparr>Moist := [- 1/2, 1/4]\<rparr>)) ! 0 = - 1/64"
  by (simp add: one_layer_soil_def one_layer_cell_def
      UnsaturatedFlow_defs Perc_pushed_def Perc_clamped_def Perc_averaged_def Drainage_def pow_def
      SoilWater_def FieldCapacity_def MaxSoilWater_def Let_def table_at_def power_divide)


section \<open>The flow that is left\<close>



















lemma extraction_idle: "0 \<le> fst (snd st) \<Longrightarrow> extraction N s T st = st"
  by (simp add: extraction_def)

lemma Runoff_DistributeSatflow_body:
  "Runoff (snd (DistributeSatflow_body F N s c)) =
     (if 0 < fst (DistributeSatflow_body F N s c)
      then Runoff c + fst (DistributeSatflow_body F N s c) else Runoff c)"
  by (simp add: DistributeSatflow_body_def Let_def)

lemma fst_DistributeSatflow_body:
  "fst (DistributeSatflow_body F N s c) =
     fst (snd (injection N s (extraction N s (TableDepth c) (0, F, Moist c))))"
  by (simp add: DistributeSatflow_body_def Let_def)



section \<open>The flow that is left, in float arithmetic\<close>










lemma DeepLayerDepth_float_exact [simp]: "DeepLayerDepth_float (\<lambda>x. x) N s = DeepLayerDepth N s"
  by (simp add: DeepLayerDepth_float_def DeepLayerDepth_def)

lemma extract_layer_float_exact [simp]: "extract_layer_float (\<lambda>x. x) s T i st = extract_layer s T i st"
  by (cases st) (simp add: extract_layer_float_def extract_layer_def next_Depth_float_def next_Depth_def
      AvaWater_float_def AvaWater_def Let_def)

lemma extract_layers_float_exact [simp]:
  "extract_layers_float (\<lambda>x. x) s T is st = extract_layers s T is st"
  by (induction "is" arbitrary: st) (simp_all add: Let_def)

lemma extract_deep_float_exact [simp]: "extract_deep_float (\<lambda>x. x) N s T st = extract_deep N s T st"
  by (cases st) (simp add: extract_deep_float_def extract_deep_def DeepAvaWater_float_def DeepAvaWater_def Let_def)

lemma inject_deep_float_exact [simp]: "inject_deep_float (\<lambda>x. x) N s st = inject_deep N s st"
  by (cases st) (simp add: inject_deep_float_def inject_deep_def Let_def)

lemma inject_layer_float_exact [simp]: "inject_layer_float (\<lambda>x. x) s i st = inject_layer s i st"
  by (cases st) (simp add: inject_layer_float_def inject_layer_def Let_def)

lemma inject_layers_float_exact [simp]:
  "inject_layers_float (\<lambda>x. x) s is st = inject_layers s is st"
  by (induction "is" arbitrary: st) (simp_all add: Let_def)

lemma DistributeSatflow_body_float_exact:
  "DistributeSatflow_body_float (\<lambda>x. x) SatFlow N s c = DistributeSatflow_body SatFlow N s c"
  by (simp add: DistributeSatflow_body_float_def DistributeSatflow_body_def extraction_float_def
      extraction_def injection_float_def injection_def Let_def)

lemma DistributeSatflow_float_exact:
  "DistributeSatflow_float (\<lambda>x. x) SatFlow N s c = DistributeSatflow SatFlow N s c"
  by (simp add: DistributeSatflow_float_def DistributeSatflow_def DistributeSatflow_body_float_exact)













section \<open>Injection\<close>

lemma inject_layer_Moist:
  "snd (snd (inject_layer s i (D, F, M))) =
     M[i := M ! i + (if (Porosity s ! i - M ! i) * RootDepth s ! i * Adjust s ! i < F
                     then (Porosity s ! i - M ! i) * RootDepth s ! i * Adjust s ! i else F) /
                    (RootDepth s ! i * Adjust s ! i)]"
  by (simp add: inject_layer_def Let_def)

lemma inject_layer_full:
  assumes "fst (snd (inject_layer s i (D, F, M))) \<noteq> 0" and "i < length M"
    and "RootDepth s ! i * Adjust s ! i \<noteq> 0"
  shows "snd (snd (inject_layer s i (D, F, M))) ! i = Porosity s ! i"
proof -
  have "(Porosity s ! i - M ! i) * RootDepth s ! i * Adjust s ! i < F"
    using assms(1) by (simp add: inject_layer_def Let_def split: if_splits)
  then show ?thesis
    using assms(2,3) by (simp add: inject_layer_Moist)
qed

lemma inject_layer_other: "j \<noteq> i \<Longrightarrow> snd (snd (inject_layer s i st)) ! j = snd (snd st) ! j"
  by (cases st) (simp add: inject_layer_def Let_def)

lemma length_inject_layer [simp]: "length (snd (snd (inject_layer s i st))) = length (snd (snd st))"
  by (cases st) (simp add: inject_layer_def Let_def)

lemma inject_layers_rev_Suc:
  "inject_layers s (rev [0..<Suc n]) st =
     (let st = inject_layer s n st
      in if fst (snd st) = 0 then st else inject_layers s (rev [0..<n]) st)"
  by simp

lemma inject_layers_above:
  "n \<le> k \<Longrightarrow> snd (snd (inject_layers s (rev [0..<n]) st)) ! k = snd (snd st) ! k"
proof (induction n arbitrary: st)
  case 0
  then show ?case by simp
next
  case (Suc n)
  then show ?case
    by (simp only: inject_layers_rev_Suc Let_def) (simp add: inject_layer_other)
qed

lemma length_inject_layers [simp]:
  "length (snd (snd (inject_layers s is st))) = length (snd (snd st))"
  by (induction "is" arbitrary: st) (simp_all add: Let_def)

lemma inject_layers_order:
  assumes "n \<le> length (snd (snd st))" and "\<forall>i<n. RootDepth s ! i * Adjust s ! i \<noteq> 0"
    and "i < n" and "snd (snd (inject_layers s (rev [0..<n]) st)) ! i \<noteq> snd (snd st) ! i"
    and "i < j" and "j < n"
  shows "snd (snd (inject_layers s (rev [0..<n]) st)) ! j = Porosity s ! j"
  using assms
proof (induction n arbitrary: st)
  case 0
  then show ?case by simp
next
  case (Suc n)
  obtain D F M where st: "st = (D, F, M)" by (cases st) auto
  let ?st1 = "inject_layer s n st"
  show ?case
  proof (cases "fst (snd ?st1) = 0")
    case True
    then have "inject_layers s (rev [0..<Suc n]) st = ?st1"
      by (simp only: inject_layers_rev_Suc Let_def) simp
    then have "i = n" using Suc.prems(4) inject_layer_other [of i n s st] by auto
    then show ?thesis using Suc.prems by simp
  next
    case False
    then have res: "inject_layers s (rev [0..<Suc n]) st = inject_layers s (rev [0..<n]) ?st1"
      by (simp only: inject_layers_rev_Suc Let_def) simp
    have full: "snd (snd ?st1) ! n = Porosity s ! n"
      using False Suc.prems(1,2) unfolding st by (intro inject_layer_full) simp_all
    have "i \<noteq> n" using Suc.prems(5,6) by simp
    then have "i < n" using Suc.prems(3) by simp
    show ?thesis
    proof (cases "j = n")
      case True
      then show ?thesis using res full by (simp add: inject_layers_above)
    next
      case False
      then have "j < n" using Suc.prems(6) by simp
      have "snd (snd (inject_layers s (rev [0..<n]) ?st1)) ! i \<noteq> snd (snd ?st1) ! i"
        using Suc.prems(4) res \<open>i \<noteq> n\<close> by (simp add: inject_layer_other)
      then have "snd (snd (inject_layers s (rev [0..<n]) ?st1)) ! j = Porosity s ! j"
        using Suc.prems(1,2) \<open>i < n\<close> \<open>i < j\<close> \<open>j < n\<close> by (intro Suc.IH) simp_all
      then show ?thesis using res by simp
    qed
  qed
qed


lemma inject_deep_eq:
  "inject_deep N s (D, F, M) =
     (D + DeepLayerDepth N s,
      F - min F ((Porosity s ! (N - 1) - M ! N) * DeepLayerDepth N s * Adjust s ! N),
      M[N := M ! N + min F ((Porosity s ! (N - 1) - M ! N) * DeepLayerDepth N s * Adjust s ! N) /
                     (DeepLayerDepth N s * Adjust s ! N)])"
  by (simp add: inject_deep_def Let_def min_def)

lemma Moist_DistributeSatflow_body:
  "Moist (snd (DistributeSatflow_body F N s c)) =
     snd (snd (injection N s (extraction N s (TableDepth c) (0, F, Moist c))))"
  by (simp add: DistributeSatflow_body_def Let_def)

text \<open>
  C2, as the code has it. In the two-layer column with the water table at 1.75, inside
  the deep layer, the saturated thickness is 0.25 and both explicit layers (0 to 0.5 and
  0.5 to 1.5) lie above the water table. The comparisons of lines 317 and 329 are all
  true there (\<open>0.5 > 0.25\<close>, \<open>1.5 > 0.25\<close>, \<open>2 > 0.25\<close>). A flow of 1 fills the deep layer
  and then both explicit layers from 0.25 to their porosity 0.5, and the rest is runoff:
  layers above the saturated region do receive injected water.
\<close>

theorem injection_above_water_table_counterexample:
  "RootDepth example_soil ! 0 + RootDepth example_soil ! 1 < TableDepth (example_cell\<lparr>TableDepth := 7/4\<rparr>) \<and>
   TotalDepth example_soil - TableDepth (example_cell\<lparr>TableDepth := 7/4\<rparr>) = 1/4 \<and>
   Moist (example_cell\<lparr>TableDepth := 7/4\<rparr>) = [1/4, 1/4, 1/4] \<and>
   DistributeSatflow 1 2 example_soil (example_cell\<lparr>TableDepth := 7/4\<rparr>) =
     Inr \<lparr>Perc = [0, 0], TableDepth = 7/4, Runoff = 1/2, Moist = [1/2, 1/2, 1/2]\<rparr>"
  by (simp add: example_soil_def example_cell_def DistributeSatflow_defs Let_def upt_0_2)


text \<open>
  C2, amended. In the injection branch (\<open>SatFlow > 0\<close>), when the water table lies in
  the deep layer (the comparison of line 317 is true, and with it those of line 329):
  the deep layer receives \<open>min(SatFlow, DeepWaterGap)\<close>, and an explicit layer receives
  water only when the deep layer and every explicit layer below it have been filled to
  their porosity. The explicit layers, all above the water table here, are not left out.
\<close>

theorem injection_fills_bottom_up:
  assumes "sized N s c" and "positive_thickness N s" and "0 < SatFlow"
    and "TotalDepth s - TableDepth c < DeepLayerDepth N s"
  shows "let c' = snd (DistributeSatflow_body SatFlow N s c);
       DeepWaterGap = (Porosity s ! (N - 1) - Moist c ! N) * DeepLayerDepth N s * Adjust s ! N
     in Moist c' ! N = Moist c ! N + min SatFlow DeepWaterGap / (DeepLayerDepth N s * Adjust s ! N) \<and>
        (\<forall>i<N. Moist c' ! i \<noteq> Moist c ! i \<longrightarrow>
           Moist c' ! N = Porosity s ! (N - 1) \<and>
           (\<forall>j. i < j \<and> j < N \<longrightarrow> Moist c' ! j = Porosity s ! j))"
proof -
  let ?M = "Moist c"
  let ?T = "DeepLayerDepth N s * Adjust s ! N"
  let ?G = "(Porosity s ! (N - 1) - ?M ! N) * DeepLayerDepth N s * Adjust s ! N"
  let ?st1 = "inject_deep N s (0, SatFlow, ?M)"
  let ?M1 = "?M[N := ?M ! N + min SatFlow ?G / ?T]"
  let ?c' = "snd (DistributeSatflow_body SatFlow N s c)"
  have len: "length ?M = Suc N" using assms(1) by (simp add: sized_def)
  have nz: "DeepLayerDepth N s \<noteq> 0 \<and> Adjust s ! N \<noteq> 0"
    using assms(2) by (auto simp: positive_thickness_def)
  have thick: "\<forall>i<N. RootDepth s ! i * Adjust s ! i \<noteq> 0"
    using assms(2) by (auto simp: positive_thickness_def)
  have st1: "?st1 = (DeepLayerDepth N s, SatFlow - min SatFlow ?G, ?M1)"
    by (simp add: inject_deep_eq)
  have M': "Moist ?c' =
      (if 0 < SatFlow - min SatFlow ?G then snd (snd (inject_layers s (rev [0..<N]) ?st1)) else ?M1)"
    using assms(3) by (simp add: Moist_DistributeSatflow_body extraction_idle injection_def Let_def st1)
  have deep: "Moist ?c' ! N = ?M ! N + min SatFlow ?G / ?T"
    using len by (simp add: M' inject_layers_above) (simp add: st1)
  have order: "Moist ?c' ! N = Porosity s ! (N - 1) \<and> (\<forall>j. i < j \<and> j < N \<longrightarrow> Moist ?c' ! j = Porosity s ! j)"
    if "i < N" and "Moist ?c' ! i \<noteq> ?M ! i" for i
  proof -
    have run: "0 < SatFlow - min SatFlow ?G"
      using that by (auto simp: M' split: if_splits)
    then have "min SatFlow ?G = ?G" by (simp add: min_def split: if_splits)
    then have "Moist ?c' ! N = ?M ! N + ?G / ?T" using deep by simp
    also have "\<dots> = Porosity s ! (N - 1)" using nz by simp
    finally have 1: "Moist ?c' ! N = Porosity s ! (N - 1)" .
    have Mc: "Moist ?c' = snd (snd (inject_layers s (rev [0..<N]) ?st1))"
      using run M' by (simp only: if_True)
    have "snd (snd ?st1) ! i = ?M ! i" using that(1) by (simp add: st1)
    then have ne: "snd (snd (inject_layers s (rev [0..<N]) ?st1)) ! i \<noteq> snd (snd ?st1) ! i"
      using that(2) Mc by simp
    have "snd (snd (inject_layers s (rev [0..<N]) ?st1)) ! j = Porosity s ! j" if "i < j" "j < N" for j
      using len thick \<open>i < N\<close> ne that by (intro inject_layers_order [where i = i]) (simp_all add: st1)
    then show ?thesis using 1 Mc by simp
  qed
  show ?thesis using deep order by (simp add: Let_def)
qed

theorem injection_fills_bottom_up_witness:
  "sized 2 example_soil (example_cell\<lparr>TableDepth := 7/4\<rparr>) \<and> positive_thickness 2 example_soil \<and>
   (0::real) < 1 \<and>
   TotalDepth example_soil - TableDepth (example_cell\<lparr>TableDepth := 7/4\<rparr>)
     < DeepLayerDepth 2 example_soil \<and>
   Moist (example_cell\<lparr>TableDepth := 7/4\<rparr>) = [1/4, 1/4, 1/4] \<and>
   Moist (snd (DistributeSatflow_body 1 2 example_soil (example_cell\<lparr>TableDepth := 7/4\<rparr>)))
     = [1/2, 1/2, 1/2] \<and>
   Porosity example_soil = [1/2, 1/2]"
  using injection_fills_bottom_up [where N = 2 and s = example_soil and SatFlow = 1
      and c = "example_cell\<lparr>TableDepth := 7/4\<rparr>"]
  by (simp add: sized_def positive_thickness_def example_soil_def example_cell_def
      DistributeSatflow_defs Let_def upt_0_2 less_Suc_eq numeral_2_eq_2)


text \<open>
  Outside that case the comparisons do not decide anything either. With the water table
  at 0.25, in layer 0, the comparison of line 317 is false (\<open>0.5 > 1.75\<close> does not hold),
  and a flow of 1/16 still goes to the deep layer: the block after the \<^verbatim>\<open>;\<close> runs.
\<close>

lemma injection_below_water_table_example:
  "DeepLayerDepth 2 example_soil \<le> TotalDepth example_soil - TableDepth (example_cell\<lparr>TableDepth := 1/4\<rparr>) \<and>
   Moist (snd (DistributeSatflow_body (1/16) 2 example_soil (example_cell\<lparr>TableDepth := 1/4\<rparr>))) =
     [1/4, 1/4, 3/8]"
  by (simp add: example_soil_def example_cell_def DistributeSatflow_defs Let_def upt_0_2)

section \<open>Water balance\<close>

lemma TotalMoisture_update:
  assumes "i < N" and "N < length M"
  shows "TotalMoisture N s (M[i := v]) =
     TotalMoisture N s M + (v - M ! i) * (RootDepth s ! i * Adjust s ! i)"
proof -
  let ?a = "\<lambda>j. RootDepth s ! j * Adjust s ! j"
  have "(\<Sum>j<N. M[i := v] ! j * ?a j) = (\<Sum>j<N. M ! j * ?a j + (if j = i then (v - M ! i) * ?a i else 0))"
    using assms by (intro sum.cong) (auto simp: nth_list_update algebra_simps)
  also have "\<dots> = (\<Sum>j<N. M ! j * ?a j) + (v - M ! i) * ?a i"
    using assms(1) by (simp add: sum.distrib)
  finally show ?thesis using assms by (simp add: TotalMoisture_def)
qed

lemma TotalMoisture_update_deep:
  assumes "N < length M"
  shows "TotalMoisture N s (M[N := v]) =
     TotalMoisture N s M + (v - M ! N) * (DeepLayerDepth N s * Adjust s ! N)"
  using assms by (simp add: TotalMoisture_def algebra_simps)

lemma TotalMoisture_add:
  "i < N \<Longrightarrow> N < length M \<Longrightarrow> RootDepth s ! i * Adjust s ! i \<noteq> 0 \<Longrightarrow>
     TotalMoisture N s (M[i := M ! i + w / (RootDepth s ! i * Adjust s ! i)]) = TotalMoisture N s M + w"
  by (simp add: TotalMoisture_update)

lemma TotalMoisture_sub:
  "i < N \<Longrightarrow> N < length M \<Longrightarrow> RootDepth s ! i * Adjust s ! i \<noteq> 0 \<Longrightarrow>
     TotalMoisture N s (M[i := M ! i - w / (RootDepth s ! i * Adjust s ! i)]) = TotalMoisture N s M - w"
  by (simp add: TotalMoisture_update)

lemma TotalMoisture_add_deep:
  "N < length M \<Longrightarrow> DeepLayerDepth N s * Adjust s ! N \<noteq> 0 \<Longrightarrow>
     TotalMoisture N s (M[N := M ! N + w / (DeepLayerDepth N s * Adjust s ! N)]) = TotalMoisture N s M + w"
  by (simp add: TotalMoisture_update_deep)


lemma extract_layer_balance:
  assumes "i < N" and "RootDepth s ! i * Adjust s ! i \<noteq> 0" and "length (snd (snd st)) = Suc N"
  shows "TotalMoisture N s (snd (snd (extract_layer s T i st))) + fst (snd (extract_layer s T i st)) =
       TotalMoisture N s (snd (snd st)) + fst (snd st) \<and>
     length (snd (snd (extract_layer s T i st))) = Suc N"
  using assms by (cases st) (simp add: extract_layer_def Let_def TotalMoisture_add)

lemma extract_layers_balance:
  assumes "\<forall>i\<in>set is. i < N \<and> RootDepth s ! i * Adjust s ! i \<noteq> 0" and "length (snd (snd st)) = Suc N"
  shows "TotalMoisture N s (snd (snd (extract_layers s T is st))) + fst (snd (extract_layers s T is st)) =
       TotalMoisture N s (snd (snd st)) + fst (snd st) \<and>
     length (snd (snd (extract_layers s T is st))) = Suc N"
  using assms
proof (induction "is" arbitrary: st)
  case Nil
  then show ?case by simp
next
  case (Cons i "is")
  have step: "TotalMoisture N s (snd (snd (extract_layer s T i st))) + fst (snd (extract_layer s T i st)) =
       TotalMoisture N s (snd (snd st)) + fst (snd st) \<and>
     length (snd (snd (extract_layer s T i st))) = Suc N"
    using Cons.prems by (intro extract_layer_balance) simp_all
  moreover have "TotalMoisture N s (snd (snd (extract_layers s T is (extract_layer s T i st)))) +
       fst (snd (extract_layers s T is (extract_layer s T i st))) =
       TotalMoisture N s (snd (snd (extract_layer s T i st))) + fst (snd (extract_layer s T i st)) \<and>
     length (snd (snd (extract_layers s T is (extract_layer s T i st)))) = Suc N"
    using Cons.prems step by (intro Cons.IH) simp_all
  ultimately show ?case using Cons.prems(2) by (simp add: Let_def)
qed

lemma extract_deep_balance:
  assumes "DeepLayerDepth N s * Adjust s ! N \<noteq> 0" and "length (snd (snd st)) = Suc N"
  shows "TotalMoisture N s (snd (snd (extract_deep N s T st))) + fst (snd (extract_deep N s T st)) =
       TotalMoisture N s (snd (snd st)) + fst (snd st) \<and>
     length (snd (snd (extract_deep N s T st))) = Suc N"
  using assms by (cases st) (simp add: extract_deep_def Let_def TotalMoisture_add_deep)

lemma inject_deep_balance:
  assumes "DeepLayerDepth N s * Adjust s ! N \<noteq> 0" and "length (snd (snd st)) = Suc N"
  shows "TotalMoisture N s (snd (snd (inject_deep N s st))) + fst (snd (inject_deep N s st)) =
       TotalMoisture N s (snd (snd st)) + fst (snd st) \<and>
     length (snd (snd (inject_deep N s st))) = Suc N"
  using assms by (cases st) (simp add: inject_deep_def Let_def TotalMoisture_add_deep)

lemma inject_layer_balance:
  assumes "i < N" and "RootDepth s ! i * Adjust s ! i \<noteq> 0" and "length (snd (snd st)) = Suc N"
  shows "TotalMoisture N s (snd (snd (inject_layer s i st))) + fst (snd (inject_layer s i st)) =
       TotalMoisture N s (snd (snd st)) + fst (snd st)"
  using assms by (cases st) (simp add: inject_layer_def Let_def TotalMoisture_add)

lemma inject_layers_balance:
  assumes "\<forall>i\<in>set is. i < N \<and> RootDepth s ! i * Adjust s ! i \<noteq> 0" and "length (snd (snd st)) = Suc N"
  shows "TotalMoisture N s (snd (snd (inject_layers s is st))) + fst (snd (inject_layers s is st)) =
       TotalMoisture N s (snd (snd st)) + fst (snd st)"
  using assms
proof (induction "is" arbitrary: st)
  case Nil
  then show ?case by simp
next
  case (Cons i "is")
  have step: "TotalMoisture N s (snd (snd (inject_layer s i st))) + fst (snd (inject_layer s i st)) =
       TotalMoisture N s (snd (snd st)) + fst (snd st)"
    using Cons.prems by (intro inject_layer_balance) simp_all
  moreover have "TotalMoisture N s (snd (snd (inject_layers s is (inject_layer s i st)))) +
       fst (snd (inject_layers s is (inject_layer s i st))) =
       TotalMoisture N s (snd (snd (inject_layer s i st))) + fst (snd (inject_layer s i st))"
    using Cons.prems by (intro Cons.IH) simp_all
  ultimately show ?case by (simp add: Let_def)
qed

lemma extraction_balance:
  assumes "\<forall>i<N. RootDepth s ! i * Adjust s ! i \<noteq> 0" and "DeepLayerDepth N s * Adjust s ! N \<noteq> 0"
    and "length (snd (snd st)) = Suc N"
  shows "TotalMoisture N s (snd (snd (extraction N s T st))) + fst (snd (extraction N s T st)) =
       TotalMoisture N s (snd (snd st)) + fst (snd st) \<and>
     length (snd (snd (extraction N s T st))) = Suc N"
proof -
  have 1: "TotalMoisture N s (snd (snd (extract_layers s T [0..<N] st))) +
        fst (snd (extract_layers s T [0..<N] st)) = TotalMoisture N s (snd (snd st)) + fst (snd st) \<and>
      length (snd (snd (extract_layers s T [0..<N] st))) = Suc N"
    using assms by (intro extract_layers_balance) simp_all
  then have "TotalMoisture N s (snd (snd (extract_deep N s T (extract_layers s T [0..<N] st)))) +
        fst (snd (extract_deep N s T (extract_layers s T [0..<N] st))) =
        TotalMoisture N s (snd (snd (extract_layers s T [0..<N] st))) +
        fst (snd (extract_layers s T [0..<N] st)) \<and>
      length (snd (snd (extract_deep N s T (extract_layers s T [0..<N] st)))) = Suc N"
    using assms(2) by (intro extract_deep_balance) simp_all
  then show ?thesis using 1 assms(3) by (simp add: extraction_def)
qed

lemma injection_balance:
  assumes "\<forall>i<N. RootDepth s ! i * Adjust s ! i \<noteq> 0" and "DeepLayerDepth N s * Adjust s ! N \<noteq> 0"
    and "length (snd (snd st)) = Suc N"
  shows "TotalMoisture N s (snd (snd (injection N s st))) + fst (snd (injection N s st)) =
       TotalMoisture N s (snd (snd st)) + fst (snd st)"
proof -
  have 1: "TotalMoisture N s (snd (snd (inject_deep N s st))) + fst (snd (inject_deep N s st)) =
       TotalMoisture N s (snd (snd st)) + fst (snd st) \<and>
     length (snd (snd (inject_deep N s st))) = Suc N"
    using assms by (intro inject_deep_balance) simp_all
  then have "TotalMoisture N s (snd (snd (inject_layers s (rev [0..<N]) (inject_deep N s st)))) +
       fst (snd (inject_layers s (rev [0..<N]) (inject_deep N s st))) =
       TotalMoisture N s (snd (snd (inject_deep N s st))) + fst (snd (inject_deep N s st))"
    using assms(1) by (intro inject_layers_balance) simp_all
  then show ?thesis using 1 by (simp add: injection_def Let_def)
qed

lemma DistributeSatflow_body_balance:
  assumes "\<forall>i<N. RootDepth s ! i * Adjust s ! i \<noteq> 0" and "DeepLayerDepth N s * Adjust s ! N \<noteq> 0"
    and "length (Moist c) = Suc N"
  shows "TotalMoisture N s (Moist (snd (DistributeSatflow_body F N s c))) + fst (DistributeSatflow_body F N s c)
     = TotalMoisture N s (Moist c) + F"
proof -
  let ?st = "extraction N s (TableDepth c) (0, F, Moist c)"
  have 1: "TotalMoisture N s (snd (snd ?st)) + fst (snd ?st) = TotalMoisture N s (Moist c) + F \<and>
      length (snd (snd ?st)) = Suc N"
    using extraction_balance [OF assms(1,2), of "(0, F, Moist c)" "TableDepth c"] assms(3) by simp
  then have "TotalMoisture N s (snd (snd (injection N s ?st))) + fst (snd (injection N s ?st)) =
      TotalMoisture N s (snd (snd ?st)) + fst (snd ?st)"
    using assms(1,2) by (intro injection_balance) simp_all
  then show ?thesis using 1 by (simp add: Moist_DistributeSatflow_body fst_DistributeSatflow_body)
qed

lemma DistributeSatflow_balance:
  assumes "\<forall>i<N. RootDepth s ! i * Adjust s ! i \<noteq> 0" and "DeepLayerDepth N s * Adjust s ! N \<noteq> 0"
    and "length (Moist c) = Suc N" and "DistributeSatflow F N s c = Inr c'"
  shows "TotalMoisture N s (Moist c') + Runoff c' = TotalMoisture N s (Moist c) + Runoff c + F"
proof -
  let ?r = "DistributeSatflow_body F N s c"
  have c': "c' = snd ?r" and f: "0 \<le> fst ?r"
    using assms(4) by (simp_all add: DistributeSatflow_def Let_def split: if_splits)
  have "Runoff (snd ?r) = Runoff c + fst ?r"
    using f by (simp add: Runoff_DistributeSatflow_body)
  then show ?thesis
    using DistributeSatflow_body_balance [OF assms(1-3), of F] c' by simp
qed


lemma roadbed_infiltration_balance:
  assumes "\<forall>i<N. RootDepth s ! i * Adjust s ! i \<noteq> 0" and "DeepLayerDepth N s * Adjust s ! N \<noteq> 0"
    and "length (Moist c) = Suc N"
    and "TableDepth c \<le> BH \<or> (0 \<le> Z \<and> Z \<le> int N)"
  shows "TotalMoisture N s (Moist (roadbed_infiltration R N s Z BH c)) +
       Runoff (roadbed_infiltration R N s Z BH c) = TotalMoisture N s (Moist c) + Runoff c + R"
proof (cases "TableDepth c \<le> BH")
  case True
  then show ?thesis by (simp add: roadbed_infiltration_def)
next
  case False
  then have Z: "0 \<le> Z" "Z \<le> int N" using assms(4) by simp_all
  show ?thesis
  proof (cases "Z = int N")
    case True
    then show ?thesis using False assms(2,3) by (simp add: roadbed_infiltration_def TotalMoisture_add_deep)
  next
    case ne: False
    then have "nat Z < N" using Z by linarith
    then show ?thesis
      using False ne Z assms(1,3) by (simp add: roadbed_infiltration_def TotalMoisture_add)
  qed
qed

lemma surface_infiltration_balance:
  assumes "0 < N" and "RootDepth s ! 0 * Adjust s ! 0 \<noteq> 0" and "length (Moist c) = Suc N"
  shows "TotalMoisture N s (Moist (fst (surface_infiltration D I s opt c))) +
       Runoff (fst (surface_infiltration D I s opt c)) = TotalMoisture N s (Moist c) + Runoff c + I"
  using assms by (simp add: surface_infiltration_def TotalMoisture_add)

lemma length_Moist_roadbed [simp]:
  "length (Moist (roadbed_infiltration R N s Z BH c)) = length (Moist c)"
  by (simp add: roadbed_infiltration_def)

lemma infiltrated_balance:
  assumes "0 < N" and "\<forall>i<N. RootDepth s ! i * Adjust s ! i \<noteq> 0"
    and "DeepLayerDepth N s * Adjust s ! N \<noteq> 0" and "length (Moist c) = Suc N"
    and "TableDepth c \<le> BH \<or> (0 \<le> Z \<and> Z \<le> int N)"
  shows "TotalMoisture N s (Moist (infiltrated D I R N s Z BH opt c)) +
       Runoff (infiltrated D I R N s Z BH opt c) = TotalMoisture N s (Moist c) + Runoff c + I + R"
proof -
  let ?c1 = "roadbed_infiltration R N s Z BH c"
  have "TotalMoisture N s (Moist (fst (surface_infiltration D I s opt ?c1))) +
       Runoff (fst (surface_infiltration D I s opt ?c1)) = TotalMoisture N s (Moist ?c1) + Runoff ?c1 + I"
    using assms by (intro surface_infiltration_balance) simp_all
  then show ?thesis
    using roadbed_infiltration_balance [OF assms(2-5), of R] by (simp add: infiltrated_def)
qed

lemma layer_above_last: "(int i < int N - 1) = (Suc i < N)"
  by auto

lemma drain_layer_balance_upper:
  assumes "Suc i < N" and "length (Moist c) = Suc N"
    and "RootDepth s ! i * Adjust s ! i \<noteq> 0" and "RootDepth s ! Suc i * Adjust s ! Suc i \<noteq> 0"
  shows "TotalMoisture N s (Moist (drain_layer Dt N s i c)) = TotalMoisture N s (Moist c)"
proof (cases "FCap s ! i < Moist c ! i")
  case False
  then show ?thesis by (simp add: drain_layer_def)
next
  case True
  let ?P = "Perc_pushed Dt s i c"
  let ?M1 = "(Moist c)[i := Moist c ! i - ?P / (RootDepth s ! i * Adjust s ! i)]"
  let ?M2 = "?M1[Suc i := ?M1 ! Suc i + ?P / (RootDepth s ! Suc i * Adjust s ! Suc i)]"
  have "Moist (drain_layer Dt N s i c) = ?M2"
    using True assms(1) by (simp add: drain_layer_def Let_def layer_above_last)
  moreover have "TotalMoisture N s ?M2 = TotalMoisture N s ?M1 + ?P"
    using assms by (intro TotalMoisture_add) simp_all
  moreover have "TotalMoisture N s ?M1 = TotalMoisture N s (Moist c) - ?P"
    using assms by (intro TotalMoisture_sub) simp_all
  ultimately show ?thesis by simp
qed

lemma drain_layer_balance_last:
  assumes "Suc i = N" and "length (Moist c) = Suc N" and "length (Perc c) = N"
    and "RootDepth s ! i * Adjust s ! i \<noteq> 0" and "PercArea s ! i \<noteq> 0"
  shows "TotalMoisture N s (Moist (drain_layer Dt N s i c)) +
       Perc (drain_layer Dt N s i c) ! i * PercArea s ! i = TotalMoisture N s (Moist c)"
  using assms by (auto simp: drain_layer_def Let_def layer_above_last TotalMoisture_sub)

lemma fold_drain_balance:
  assumes "n < N" and "length (Moist c) = Suc N" and "\<forall>i<N. RootDepth s ! i * Adjust s ! i \<noteq> 0"
  shows "TotalMoisture N s (Moist (fold (drain_layer Dt N s) [0..<n] c)) = TotalMoisture N s (Moist c)"
  using assms(1)
proof (induction n)
  case 0
  then show ?case by simp
next
  case (Suc n)
  let ?c = "fold (drain_layer Dt N s) [0..<n] c"
  have "TotalMoisture N s (Moist (drain_layer Dt N s n ?c)) = TotalMoisture N s (Moist ?c)"
    using Suc.prems assms(2,3) by (intro drain_layer_balance_upper) simp_all
  then show ?case using Suc by simp
qed

lemma drain_layers_balance:
  assumes "0 < N" and "length (Moist c) = Suc N" and "length (Perc c) = N"
    and "\<forall>i<N. RootDepth s ! i * Adjust s ! i \<noteq> 0" and "PercArea s ! (N - 1) \<noteq> 0"
  shows "TotalMoisture N s (Moist (drain_layers Dt N s c)) +
       Perc (drain_layers Dt N s c) ! (N - 1) * PercArea s ! (N - 1) = TotalMoisture N s (Moist c)"
proof -
  obtain n where N: "N = Suc n" using assms(1) by (cases N) auto
  let ?c = "fold (drain_layer Dt N s) [0..<n] c"
  have "TotalMoisture N s (Moist (drain_layer Dt N s n ?c)) +
       Perc (drain_layer Dt N s n ?c) ! n * PercArea s ! n = TotalMoisture N s (Moist ?c)"
    using assms N by (intro drain_layer_balance_last) simp_all
  moreover have "TotalMoisture N s (Moist ?c) = TotalMoisture N s (Moist c)"
    using assms N by (intro fold_drain_balance) simp_all
  moreover have "drain_layers Dt N s c = drain_layer Dt N s n ?c"
    by (simp add: drain_layers_def N)
  ultimately show ?thesis by (simp add: N)
qed

lemma deep_drainage_balance:
  assumes "length (Moist c) = Suc N" and "DeepLayerDepth N s * Adjust s ! N \<noteq> 0"
  shows "TotalMoisture N s (Moist (deep_drainage N s c)) =
       TotalMoisture N s (Moist c) + Perc c ! (N - 1) * PercArea s ! (N - 1)"
  using assms by (simp add: deep_drainage_def Let_def TotalMoisture_add_deep)

lemma Runoff_deep_drainage [simp]: "Runoff (deep_drainage N s c) = Runoff c"
  by (simp add: deep_drainage_def Let_def)

lemma Runoff_drain_layers [simp]: "Runoff (drain_layers Dt N s c) = Runoff c"
  by (simp add: drain_layers_def)

lemma length_Moist_drain_layers [simp]: "length (Moist (drain_layers Dt N s c)) = length (Moist c)"
  by (simp add: drain_layers_def)

lemma water_table_balance:
  assumes "keeps_water W N s (Moist p)"
  shows "TotalMoisture N s (Moist (fst (water_table W D N s opt (p, x)))) +
       Runoff (fst (water_table W D N s opt (p, x))) = TotalMoisture N s (Moist p) + Runoff p"
  using assms by (auto simp: keeps_water_def water_table_def Let_def)

lemma percolated_balance:
  assumes "sized N s c" and "\<forall>i<N. RootDepth s ! i * Adjust s ! i \<noteq> 0"
    and "DeepLayerDepth N s * Adjust s ! N \<noteq> 0" and "PercArea s ! (N - 1) \<noteq> 0"
    and "TableDepth c \<le> BH \<or> (0 \<le> Z \<and> Z \<le> int N)"
  shows "TotalMoisture N s (Moist (fst (percolated D Dt I R SF N s Z BH opt c))) +
       Runoff (fst (percolated D Dt I R SF N s Z BH opt c)) = TotalMoisture N s (Moist c) + Runoff c + I + R"
proof -
  let ?c0 = "infiltrated D I R N s Z BH opt c"
  let ?c1 = "drain_layers Dt N s ?c0"
  have N: "0 < N" and len: "length (Moist c) = Suc N" "length (Perc c) = N"
    using assms(1) by (simp_all add: sized_def)
  have 0: "TotalMoisture N s (Moist ?c0) + Runoff ?c0 = TotalMoisture N s (Moist c) + Runoff c + I + R"
    using N assms(2,3) len(1) assms(5) by (rule infiltrated_balance)
  have 1: "TotalMoisture N s (Moist ?c1) + Perc ?c1 ! (N - 1) * PercArea s ! (N - 1) =
      TotalMoisture N s (Moist ?c0)"
    using N len assms(2,4) by (intro drain_layers_balance) simp_all
  have 2: "TotalMoisture N s (Moist (deep_drainage N s ?c1)) =
      TotalMoisture N s (Moist ?c1) + Perc ?c1 ! (N - 1) * PercArea s ! (N - 1)"
    using len assms(3) by (intro deep_drainage_balance) simp_all
  show ?thesis using 0 1 2 by (simp add: fst_percolated)
qed


lemma positive_thickness_nonzero:
  assumes "positive_thickness N s"
  shows "\<forall>i<N. RootDepth s ! i * Adjust s ! i \<noteq> 0" and "DeepLayerDepth N s * Adjust s ! N \<noteq> 0"
  using assms by (auto simp: positive_thickness_def)

text \<open>
  C1, as the code has it. The two-layer column at rest (every layer at field capacity,
  the water table at the bottom, where the water table routine reports the depth 2 and
  changes no moisture). With no cut bank (\<open>CutBankZone = -1\<close>) and the table below
  \<open>BankHeight\<close>, a roadbed infiltration of 1/4 changes neither the moisture nor the runoff,
  already before the water table is computed: the balance is 0, not 1/4. And
  \<open>UnsaturatedFlow\<close> called with a saturated flow of 1 changes nothing either: it does not
  use that argument.
\<close>

theorem water_balance_counterexample:
  "fst (percolated 2 1 0 (1/4) 0 2 example_soil (- 1) 1 2 example_cell) = example_cell \<and>
   UnsaturatedFlow (table_at 2) 2 1 0 (1/4) 0 2 example_soil (- 1) 1 2 example_cell = example_cell \<and>
   TotalMoisture 2 example_soil
      (Moist (UnsaturatedFlow (table_at 2) 2 1 0 (1/4) 0 2 example_soil (- 1) 1 2 example_cell)) +
    Runoff (UnsaturatedFlow (table_at 2) 2 1 0 (1/4) 0 2 example_soil (- 1) 1 2 example_cell) -
    (TotalMoisture 2 example_soil (Moist example_cell) + Runoff example_cell) \<noteq> 0 + 1/4 + 0 \<and>
   UnsaturatedFlow (table_at 2) 2 1 0 0 1 2 example_soil (- 1) 1 2 example_cell = example_cell \<and>
   TotalMoisture 2 example_soil
      (Moist (UnsaturatedFlow (table_at 2) 2 1 0 0 1 2 example_soil (- 1) 1 2 example_cell)) +
    Runoff (UnsaturatedFlow (table_at 2) 2 1 0 0 1 2 example_soil (- 1) 1 2 example_cell) -
    (TotalMoisture 2 example_soil (Moist example_cell) + Runoff example_cell) \<noteq> 0 + 0 + 1"
  by (simp add: table_at_def TotalMoisture_def example_soil_def example_cell_def UnsaturatedFlow_defs
      Let_def upt_0_2 numeral_2_eq_2)

text \<open>
  C1, amended. For a column with arrays of the right lengths and positive thicknesses:
  \<^item> \<open>UnsaturatedFlow\<close>, when \<open>PercArea\<close> of the lowest layer is not 0, the roadbed infiltration
    has somewhere to go (\<open>TableDepth \<le> BankHeight\<close>, or \<open>0 \<le> CutBankZone \<le> NSoilLayers\<close>) and
    \<^verbatim>\<open>WaterTableDepth\<close> keeps the water of the moisture array it is given: the water in
    the column plus the runoff grows by exactly \<open>Infiltration + RoadbedInfiltration\<close>;
  \<^item> \<open>DistributeSatflow\<close>, when it returns: the water in the column plus the runoff grows
    by exactly \<open>SatFlow\<close>.
\<close>

theorem water_balance:
  assumes "sized N s c" and "positive_thickness N s" and "PercArea s ! (N - 1) \<noteq> 0"
  shows "(let p = fst (percolated DYNAMIC Dt I R SF N s Z BH opt c);
           c' = UnsaturatedFlow W DYNAMIC Dt I R SF N s Z BH opt c
       in (TableDepth c \<le> BH \<or> (0 \<le> Z \<and> Z \<le> int N)) \<and> keeps_water W N s (Moist p) \<longrightarrow>
          TotalMoisture N s (Moist c') + Runoff c' = TotalMoisture N s (Moist c) + Runoff c + I + R) \<and>
     (\<forall>c'. DistributeSatflow SF N s c = Inr c' \<longrightarrow>
          TotalMoisture N s (Moist c') + Runoff c' = TotalMoisture N s (Moist c) + Runoff c + SF)"
proof -
  note nz = positive_thickness_nonzero [OF assms(2)]
  let ?p = "fst (percolated DYNAMIC Dt I R SF N s Z BH opt c)"
  let ?c' = "UnsaturatedFlow W DYNAMIC Dt I R SF N s Z BH opt c"
  have len: "length (Moist c) = Suc N" using assms(1) by (simp add: sized_def)
  have "TotalMoisture N s (Moist ?c') + Runoff ?c' = TotalMoisture N s (Moist c) + Runoff c + I + R"
    if routed: "TableDepth c \<le> BH \<or> (0 \<le> Z \<and> Z \<le> int N)" and W: "keeps_water W N s (Moist ?p)"
  proof -
    have "TotalMoisture N s (Moist ?p) + Runoff ?p = TotalMoisture N s (Moist c) + Runoff c + I + R"
      using assms(1) nz assms(3) routed by (rule percolated_balance)
    moreover have "TotalMoisture N s (Moist ?c') + Runoff ?c' = TotalMoisture N s (Moist ?p) + Runoff ?p"
      using water_table_balance [OF W, of DYNAMIC opt "snd (percolated DYNAMIC Dt I R SF N s Z BH opt c)"]
      by (simp add: UnsaturatedFlow_def UnsaturatedFlow_locals_def)
    ultimately show ?thesis by simp
  qed
  moreover have "TotalMoisture N s (Moist c') + Runoff c' = TotalMoisture N s (Moist c) + Runoff c + SF"
    if "DistributeSatflow SF N s c = Inr c'" for c'
    using nz len that by (rule DistributeSatflow_balance)
  ultimately show ?thesis by (simp add: Let_def)
qed

theorem water_balance_witness:
  "sized 2 example_soil (example_cell\<lparr>Moist := [3/4, 1/4, 1/4]\<rparr>) \<and> positive_thickness 2 example_soil \<and>
   PercArea example_soil ! (2 - 1) \<noteq> 0 \<and> (0::int) \<le> 1 \<and> (1::int) \<le> int 2 \<and>
   keeps_water (table_at 2) 2 example_soil
     (Moist (fst (percolated 2 1024 (1/4) (1/8) 1 2 example_soil 1 1 2 (example_cell\<lparr>Moist := [3/4, 1/4, 1/4]\<rparr>)))) \<and>
   TotalMoisture 2 example_soil (Moist (example_cell\<lparr>Moist := [3/4, 1/4, 1/4]\<rparr>)) = 3/4 \<and>
   TotalMoisture 2 example_soil (Moist
     (UnsaturatedFlow (table_at 2) 2 1024 (1/4) (1/8) 1 2 example_soil 1 1 2 (example_cell\<lparr>Moist := [3/4, 1/4, 1/4]\<rparr>)))
     + Runoff
     (UnsaturatedFlow (table_at 2) 2 1024 (1/4) (1/8) 1 2 example_soil 1 1 2 (example_cell\<lparr>Moist := [3/4, 1/4, 1/4]\<rparr>))
     = 3/4 + 0 + 1/4 + 1/8 \<and>
   DistributeSatflow 1 2 example_soil (example_cell\<lparr>Moist := [3/4, 1/4, 1/4]\<rparr>) =
     Inr \<lparr>Perc = [0, 0], TableDepth = 2, Runoff = 3/4, Moist = [1/2, 1/2, 1/2]\<rparr> \<and>
   TotalMoisture 2 example_soil [1/2, 1/2, 1/2] + 3/4 = 3/4 + 0 + 1"
  using water_balance [where N = 2 and s = example_soil and c = "example_cell\<lparr>Moist := [3/4, 1/4, 1/4]\<rparr>"
      and DYNAMIC = 2 and Dt = 1024 and I = "1/4" and R = "1/8" and SF = 1 and Z = 1 and BH = 1
      and opt = 2 and W = "table_at 2"]
  by (simp add: sized_def positive_thickness_def keeps_water_def table_at_def TotalMoisture_def
      example_soil_def example_cell_def UnsaturatedFlow_defs DistributeSatflow_def
      DistributeSatflow_body_def extraction_def injection_def inject_deep_def inject_layer_def
      Perc_pushed_def Perc_clamped_def Perc_averaged_def Drainage_def pow_def
      SoilWater_def FieldCapacity_def MaxSoilWater_def Let_def upt_0_2 less_Suc_eq numeral_2_eq_2)


end
